theory Spec2Isabelle
  imports Main "HOL-Library.Sublist" "HOL-Library.Multiset" "HOL-Library.Char_ord"
    "HOL-Library.List_Lexorder"
begin

section \<open>The OpenAPI document (package openapi)\<close>

text \<open>
  The generator in \<^verbatim>\<open>generator/generator.go\<close> builds values of the OpenAPI v3 types.  Only
  the fields the generator reads or writes are kept; \<open>s_Extra\<close> stands for the remaining
  fields of a schema (title, maxLength, ...), which only an author-supplied override can set.
  A Go slice that is \<^verbatim>\<open>nil\<close> and one that is empty are both the empty list, a \<^verbatim>\<open>nil\<close> pointer
  is \<open>None\<close>.  A \<^verbatim>\<open>SchemaOrReference\<close> holds either a schema or a reference; the generator
  never sets both.
\<close>

datatype Schema = Schema
    (s_Type: string)
    (s_Format: string)
    (s_Description: string)
    (s_Properties: "(string \<times> SchemaOrReference) list")
    (s_Required: "string list")
    (s_AdditionalProperties: "SchemaOrReference option option")
    (s_Items: "SchemaOrReference option list")
    (s_Extra: "(string \<times> string) list")
and SchemaOrReference =
    IsSchema Schema
  | IsReference string

record Server =
  URL :: string

record Parameter =
  p_Name :: string
  p_In :: string
  p_Description :: string
  p_Required :: bool
  p_Schema :: "SchemaOrReference option"

record Header =
  h_Description :: string
  h_Schema :: "SchemaOrReference option"

text \<open>A \<^verbatim>\<open>MediaTypes\<close> value: content-type name and the schema of its media type.\<close>

type_synonym MediaTypes = "(string \<times> SchemaOrReference) list"

record RequestBody =
  rb_Description :: string
  rb_Content :: MediaTypes

record Response =
  r_Description :: string
  r_Headers :: "(string \<times> Header) list option"
  r_Content :: "MediaTypes option"

record Operation =
  o_Tags :: "string list"
  o_Description :: string
  o_OperationID :: string
  o_Parameters :: "Parameter list"
  o_Responses :: "(string \<times> Response) list option"
  o_RequestBody :: "RequestBody option"
  o_Servers :: "Server list"

record PathItem =
  pi_Get :: "Operation option"
  pi_Post :: "Operation option"
  pi_Put :: "Operation option"
  pi_Delete :: "Operation option"
  pi_Patch :: "Operation option"
  pi_Options :: "Operation option"
  pi_Head :: "Operation option"
  pi_Servers :: "Server list"

record Tag =
  t_Name :: string
  t_Description :: string

record Info =
  i_Title :: string
  i_Description :: string
  i_Version :: string

text \<open>
  \<open>d_Paths\<close> is \<^verbatim>\<open>d.Paths.Path\<close> (a list of named path items) and \<open>d_Schemas\<close> is
  \<^verbatim>\<open>d.Components.Schemas.AdditionalProperties\<close> (a list of named schemas).
\<close>

record Document =
  d_Openapi :: string
  d_Info :: Info
  d_Servers :: "Server list"
  d_Paths :: "(string \<times> PathItem) list"
  d_Schemas :: "(string \<times> SchemaOrReference) list"
  d_Tags :: "Tag list"

definition emptySchema :: Schema where
  "emptySchema = Schema [] [] [] [] [] None [] []"

definition emptyOperation :: Operation where
  "emptyOperation = \<lparr>o_Tags = [], o_Description = [], o_OperationID = [], o_Parameters = [],
     o_Responses = None, o_RequestBody = None, o_Servers = []\<rparr>"

definition emptyPathItem :: PathItem where
  "emptyPathItem = \<lparr>pi_Get = None, pi_Post = None, pi_Put = None, pi_Delete = None,
     pi_Patch = None, pi_Options = None, pi_Head = None, pi_Servers = []\<rparr>"

section \<open>The parsed IDL (packages parser and thrift\_reflection)\<close>

text \<open>
  A type descriptor is a primitive or other non-struct name, a reference to a struct, a map
  or a list.  \<open>GetName\<close> of a container is the container's keyword.
\<close>

datatype TypeDescriptor =
    Named string
  | StructRef string
  | MapOf TypeDescriptor TypeDescriptor
  | ListOf TypeDescriptor

fun GetName :: "TypeDescriptor \<Rightarrow> string" where
  "GetName (Named n) = n"
| "GetName (StructRef n) = n"
| "GetName (MapOf k v) = ''map''"
| "GetName (ListOf v) = ''list''"

text \<open>
  Annotations are kept as an association list from key to values.  The parser gives every
  annotation at least one value, so a key with no values is the same as an absent key
  (\<^verbatim>\<open>nil\<close> in Go).  The payloads of the \<^verbatim>\<open>openapi.*\<close> annotations are parsed by
  \<^verbatim>\<open>utils.Parse...Option\<close>, which is not part of the generator; the parsed payloads are part
  of the input: \<open>fd_property_option\<close> is what \<^verbatim>\<open>ParseFieldOption(v, OpenapiProperty, _)\<close>
  leaves in a fresh schema, \<open>fd_parameter_option\<close> what
  \<^verbatim>\<open>ParseFieldOption(v, OpenapiParameter, _)\<close> leaves in a \<^verbatim>\<open>nil\<close> pointer, and so on.
\<close>

type_synonym Annotations = "(string \<times> string list) list"

definition ann :: "Annotations \<Rightarrow> string \<Rightarrow> string list" where
  "ann a k = (case map_of a k of None \<Rightarrow> [] | Some vs \<Rightarrow> vs)"

record Field =
  fd_Name :: string
  fd_Type :: TypeDescriptor
  fd_Comments :: string
  fd_Annotations :: Annotations
  fd_property_option :: Schema
  fd_parameter_option :: "Parameter option"

record StructLike =
  st_Name :: string
  st_Comments :: string
  st_Annotations :: Annotations
  st_Fields :: "Field list"
  st_schema_option :: "Schema option"
  st_document_option :: "Document option"

text \<open>
  A function keeps the type names of its arguments and of its return type;
  \<open>fn_operation_option\<close> is what \<^verbatim>\<open>ParseMethodOption(methodDesc, OpenapiOperation, _)\<close>
  leaves in a fresh operation.
\<close>

record Function =
  fn_Name :: string
  fn_ReservedComments :: string
  fn_Annotations :: Annotations
  fn_Arguments :: "string list"
  fn_FunctionType :: string
  fn_operation_option :: Operation

record Service =
  sv_Name :: string
  sv_ReservedComments :: string
  sv_Annotations :: Annotations
  sv_Functions :: "Function list"
  sv_document_option :: "Document option"

text \<open>
  The tree of one file.  The generator has two views of its struct-likes.  The parser's
  \<^verbatim>\<open>g.ast.GetStructLikes()\<close> gives the structs, then the unions, then the exceptions;
  \<^verbatim>\<open>getStructLikeByName\<close> searches that list.  The reflection registry behind
  \<^verbatim>\<open>GetStructDescriptor\<close>, which \<^verbatim>\<open>RegisterAST\<close> builds from the same tree, answers for
  the structs only: the name of a union or of an exception has no struct descriptor.  A
  struct reference whose name is not among the structs is one that cannot be resolved.  A
  field typed by a union or by an exception is not of struct category: its type is a
  \<open>Named\<close> one.  The tree is that of a file which includes no other.
\<close>

record Thrift =
  Services :: "Service list"
  Structs :: "StructLike list"
  Unions :: "StructLike list"
  Exceptions :: "StructLike list"

definition GetStructLikes :: "Thrift \<Rightarrow> StructLike list" where
  "GetStructLikes ast = Structs ast @ Unions ast @ Exceptions ast"

definition GetStructDescriptor :: "Thrift \<Rightarrow> string \<Rightarrow> StructLike option" where
  "GetStructDescriptor ast name = find (\<lambda>s. st_Name s = name) (Structs ast)"

definition getStructLikeByName :: "Thrift \<Rightarrow> string \<Rightarrow> StructLike option" where
  "getStructLikeByName ast name = find (\<lambda>s. st_Name s = name) (GetStructLikes ast)"

section \<open>What the generator takes from outside\<close>

text \<open>
  \<^verbatim>\<open>filterCommentString\<close> is two regular-expression searches of Go's regexp library;
  \<^verbatim>\<open>utils.MergeStructs\<close> is the reflective merge of an override onto a generated value, at
  each of the four types it is called at.  Both are parameters of the model.
  \<open>MergeNilPanics\<close> says what \<^verbatim>\<open>MergeStructs\<close> does when its destination is a \<^verbatim>\<open>nil\<close>
  schema pointer: panic, or return without effect.
\<close>

record externals =
  filterCommentString :: "string \<Rightarrow> string"
  MergeDocument :: "Document \<Rightarrow> Document \<Rightarrow> Document"
  MergeOperation :: "Operation \<Rightarrow> Operation \<Rightarrow> Operation"
  MergeSchema :: "Schema \<Rightarrow> Schema \<Rightarrow> Schema"
  MergeParameter :: "Parameter \<Rightarrow> Parameter \<Rightarrow> Parameter"
  MergeNilPanics :: bool

text \<open>
  Modelled from the spec: \<^verbatim>\<open>utils.Contains\<close> and \<^verbatim>\<open>utils.AppendUnique\<close>, of package
  utils, which is not among the sources.  The spec keeps the required names as an ordered
  set and the servers "ordered, de-duplicated by URL": membership in a slice of strings,
  and an append that leaves out what is already there.
\<close>

definition Contains :: "string list \<Rightarrow> string \<Rightarrow> bool" where
  "Contains xs x = (x \<in> set xs)"

definition AppendUnique :: "string list \<Rightarrow> string \<Rightarrow> string list" where
  "AppendUnique xs x = (if Contains xs x then xs else xs @ [x])"

section \<open>The generator\<close>

datatype error = NilPointerDereference | IndexOutOfRange | OutOfFuel

record Generator =
  generatedSchemas :: "string list"
  requiredSchemas :: "string list"


subsection \<open>Annotation keys\<close>

definition ApiGet :: string where "ApiGet = ''api.get''"
definition ApiPost :: string where "ApiPost = ''api.post''"
definition ApiPut :: string where "ApiPut = ''api.put''"
definition ApiPatch :: string where "ApiPatch = ''api.patch''"
definition ApiDelete :: string where "ApiDelete = ''api.delete''"
definition ApiOptions :: string where "ApiOptions = ''api.options''"
definition ApiHEAD :: string where "ApiHEAD = ''api.head''"
definition ApiAny :: string where "ApiAny = ''api.any''"
definition ApiQuery :: string where "ApiQuery = ''api.query''"
definition ApiForm :: string where "ApiForm = ''api.form''"
definition ApiPath :: string where "ApiPath = ''api.path''"
definition ApiHeader :: string where "ApiHeader = ''api.header''"
definition ApiCookie :: string where "ApiCookie = ''api.cookie''"
definition ApiBody :: string where "ApiBody = ''api.body''"
definition ApiRawBody :: string where "ApiRawBody = ''api.raw_body''"
definition ApiBaseDomain :: string where "ApiBaseDomain = ''api.base_domain''"
definition ApiBaseURL :: string where "ApiBaseURL = ''api.baseurl''"
definition OpenapiProperty :: string where "OpenapiProperty = ''openapi.property''"
definition OpenapiDocument :: string where "OpenapiDocument = ''openapi.document''"


definition HttpMethodAnnotations :: "(string \<times> string) list" where
  "HttpMethodAnnotations =
     [(ApiGet, ''GET''), (ApiPost, ''POST''), (ApiPut, ''PUT''), (ApiPatch, ''PATCH''),
      (ApiDelete, ''DELETE''), (ApiOptions, ''OPTIONS''), (ApiHEAD, ''HEAD''),
      (ApiAny, ''ANY'')]"

text \<open>
  Modelled from the spec: \<^verbatim>\<open>utils.GetAnnotation\<close> and \<^verbatim>\<open>utils.GetAnnotations\<close>, of package
  utils, which is not among the sources.  The spec's annotation lookup gives the "ordered
  sequence of string values (empty if absent)" of a key; \<^verbatim>\<open>GetAnnotations\<close> does so for
  every key of a table that is present, under the table's name for the key.  Its result is
  a Go map from verb to values (line 241 ranges over it with a string key and indexes the
  value); the list here holds the entries of that map, and the order in which a
  \<^verbatim>\<open>range\<close> visits them is a parameter of \<open>addPathsToDocument\<close>.
\<close>

definition GetAnnotation :: "Annotations \<Rightarrow> string \<Rightarrow> string list" where
  "GetAnnotation a k = ann a k"

definition GetAnnotations :: "Annotations \<Rightarrow> (string \<times> string) list \<Rightarrow> (string \<times> string list) list" where
  "GetAnnotations a targets =
     List.map_filter (\<lambda>(k, t). if k \<in> fst ` set a then Some (t, ann a k) else None) targets"

subsection \<open>schemaReferenceForMessage, schemaOrReferenceForField\<close>

definition schemaReferenceForMessage :: "StructLike \<Rightarrow> Generator \<Rightarrow> Generator \<times> string" where
  "schemaReferenceForMessage message g =
     (let schemaName = st_Name message;
          g' = (if \<not> Contains (requiredSchemas g) schemaName
                then g\<lparr>requiredSchemas := requiredSchemas g @ [schemaName]\<rparr> else g)
      in (g', ''#/components/schemas/'' @ schemaName))"

text \<open>The schemas of the names tested one after the other at lines 808 to 885.\<close>

definition typed :: "string \<Rightarrow> string \<Rightarrow> SchemaOrReference" where
  "typed t f = IsSchema (Schema t f [] [] [] None [] [])"

definition primitiveSchema :: "string \<Rightarrow> SchemaOrReference option" where
  "primitiveSchema n =
     (if n = ''string'' then Some (typed ''string'' [])
      else if n = ''binary'' then Some (typed ''string'' ''binary'')
      else if n = ''bool'' then Some (typed ''boolean'' [])
      else if n = ''byte'' then Some (typed ''string'' ''byte'')
      else if n = ''double'' then Some (typed ''number'' ''double'')
      else if n = ''i8'' then Some (typed ''integer'' ''int8'')
      else if n = ''i16'' then Some (typed ''integer'' ''int16'')
      else if n = ''i32'' then Some (typed ''integer'' ''int32'')
      else if n = ''i64'' then Some (typed ''integer'' ''int64'')
      else None)"

text \<open>
  A struct type whose descriptor cannot be found gives \<^verbatim>\<open>nil\<close> at once (line 799) and
  registers nothing.  Otherwise the struct's name is registered as required; a later test
  on the type's name replaces the reference if it matches.  A map or a list wraps the
  schema of its value type, \<^verbatim>\<open>nil\<close> included.
\<close>

fun schemaOrReferenceForField :: "Thrift \<Rightarrow> TypeDescriptor \<Rightarrow> Generator \<Rightarrow> Generator \<times> SchemaOrReference option" where
  "schemaOrReferenceForField ast (StructRef n) g =
     (case GetStructDescriptor ast n of
        None \<Rightarrow> (g, None)
      | Some structDesc \<Rightarrow>
          (let (g', ref) = schemaReferenceForMessage structDesc g
           in (g', case primitiveSchema n of
                     Some s \<Rightarrow> Some s
                   | None \<Rightarrow> Some (IsReference ref))))"
| "schemaOrReferenceForField ast (Named n) g = (g, primitiveSchema n)"
| "schemaOrReferenceForField ast (MapOf k v) g =
     (let (g', kindSchema) = schemaOrReferenceForField ast v g
      in (g', Some (IsSchema (Schema ''object'' [] [] [] [] (Some kindSchema) [] []))))"
| "schemaOrReferenceForField ast (ListOf v) g =
     (let (g', kindSchema) = schemaOrReferenceForField ast v g
      in (g', Some (IsSchema (Schema ''array'' [] [] [] [] None [kindSchema] []))))"

subsection \<open>getSchemaByOption\<close>

text \<open>
  One field of the loop at lines 588 to 619: the state is the generator, the properties
  collected so far and the required names collected so far.
\<close>

definition getSchemaByOption_field ::
  "externals \<Rightarrow> Thrift \<Rightarrow> string \<Rightarrow> string list \<Rightarrow> Field
     \<Rightarrow> Generator \<times> (string \<times> SchemaOrReference) list \<times> string list
     \<Rightarrow> Generator \<times> (string \<times> SchemaOrReference) list \<times> string list" where
  "getSchemaByOption_field X ast option allRequired field = (\<lambda>(g, props, required).
     (case ann (fd_Annotations field) option of
        [] \<Rightarrow> (g, props, required)
      | ext # _ \<Rightarrow>
          (let extName = (if ext \<noteq> [] then ext else fd_Name field);
               required' = (if Contains allRequired extName then required @ [extName] else required);
               description = filterCommentString X (fd_Comments field);
               (g', fieldSchema) = schemaOrReferenceForField ast (fd_Type field) g
           in case fieldSchema of
                None \<Rightarrow> (g', props, required')
              | Some (IsSchema s) \<Rightarrow>
                  (g', props @ [(extName, IsSchema (MergeSchema X
                      (Schema (s_Type s) (s_Format s) description (s_Properties s) (s_Required s)
                         (s_AdditionalProperties s) (s_Items s) (s_Extra s))
                      (fd_property_option field)))], required')
              | Some (IsReference r) \<Rightarrow> (g', props @ [(extName, IsReference r)], required'))))"

definition Schema_set_Required :: "Schema \<Rightarrow> string list \<Rightarrow> Schema" where
  "Schema_set_Required s r = Schema (s_Type s) (s_Format s) (s_Description s) (s_Properties s) r
     (s_AdditionalProperties s) (s_Items s) (s_Extra s)"

definition getSchemaByOption :: "externals \<Rightarrow> Thrift \<Rightarrow> StructLike \<Rightarrow> string \<Rightarrow> Generator \<Rightarrow> Generator \<times> Schema" where
  "getSchemaByOption X ast inputDesc option g =
     (let extSchema = st_schema_option inputDesc;
          allRequired = (case extSchema of None \<Rightarrow> [] | Some e \<Rightarrow> s_Required e);
          (g', props, required) =
             fold (getSchemaByOption_field X ast option allRequired) (st_Fields inputDesc) (g, [], []);
          schema = Schema ''object'' [] [] props [] None [] [];
          schema' = (case extSchema of None \<Rightarrow> schema | Some e \<Rightarrow> MergeSchema X schema e)
      in (g', Schema_set_Required schema' required))"


subsection \<open>addSchemaToDocument, getResponseForStruct\<close>

definition addSchemaToDocument :: "string \<times> SchemaOrReference \<Rightarrow> Generator \<times> Document \<Rightarrow> Generator \<times> Document" where
  "addSchemaToDocument schema = (\<lambda>(g, d).
     if Contains (generatedSchemas g) (fst schema) then (g, d)
     else (g\<lparr>generatedSchemas := generatedSchemas g @ [fst schema]\<rparr>,
           d\<lparr>d_Schemas := d_Schemas d @ [schema]\<rparr>))"

text \<open>One field of the loop at lines 509 to 526.\<close>

definition getResponseForStruct_field ::
  "externals \<Rightarrow> Thrift \<Rightarrow> Field \<Rightarrow> Generator \<times> (string \<times> Header) list \<Rightarrow> Generator \<times> (string \<times> Header) list" where
  "getResponseForStruct_field X ast field = (\<lambda>(g, headers).
     (case ann (fd_Annotations field) ApiHeader of
        [] \<Rightarrow> (g, headers)
      | ext # _ \<Rightarrow>
          if ext \<noteq> [] then
            (let (g', schema) = schemaOrReferenceForField ast (fd_Type field) g
             in (g', headers @ [(ext, \<lparr>h_Description = filterCommentString X (fd_Comments field),
                                        h_Schema = schema\<rparr>)]))
          else (g, headers)))"

definition getResponseForStruct ::
  "externals \<Rightarrow> Thrift \<Rightarrow> StructLike \<Rightarrow> Generator \<times> Document
     \<Rightarrow> (Generator \<times> Document) \<times> string \<times> (string \<times> Header) list \<times> MediaTypes" where
  "getResponseForStruct X ast desc = (\<lambda>(g0, d0).
     (let (g1, headers) = fold (getResponseForStruct_field X ast) (st_Fields desc) (g0, []);
          (g2, bodySchema) = getSchemaByOption X ast desc ApiBody g1;
          (g3, rawBodySchema) = getSchemaByOption X ast desc ApiRawBody g2;
          ref = ''#/components/schemas/'' @ st_Name desc;
          (st4, ap4) =
            (if length (s_Properties bodySchema) > 0
             then (addSchemaToDocument (st_Name desc, IsSchema bodySchema) (g3, d0),
                   [(''application/json'', IsReference ref)])
             else ((g3, d0), []));
          (st5, ap5) =
            (if length (s_Properties rawBodySchema) > 0
             then (addSchemaToDocument (st_Name desc, IsSchema rawBodySchema) st4,
                   ap4 @ [(''application/octet-stream'', IsReference ref)])
             else (st4, ap4))
      in (st5, ''200'', headers, ap5)))"

subsection \<open>buildOperation\<close>

text \<open>The variables of one round of the parameter loop (lines 296 to 298).\<close>

record ParamVars =
  paramName :: string
  paramIn :: string
  paramDesc :: string
  fieldSchema :: "SchemaOrReference option"
  required :: bool

text \<open>
  One of the four location blocks (lines 299 to 359): \<open>key\<close> is the annotation,
  \<open>loc\<close> the location it stands for, \<open>req\<close> whether the block ends with
  \<^verbatim>\<open>required = true\<close> (the path block alone).  With an \<^verbatim>\<open>openapi.property\<close> annotation the
  block reads \<^verbatim>\<open>fieldSchema.Schema\<close> unguarded: a \<^verbatim>\<open>nil\<close> field schema panics there.
\<close>

definition locationBlock ::
  "externals \<Rightarrow> Thrift \<Rightarrow> Field \<Rightarrow> string \<Rightarrow> string \<Rightarrow> bool \<Rightarrow> Generator \<times> ParamVars
     \<Rightarrow> error + Generator \<times> ParamVars" where
  "locationBlock X ast v key loc req = (\<lambda>(g, vars).
     (case ann (fd_Annotations v) key of
        [] \<Rightarrow> Inr (g, vars)
      | ext # _ \<Rightarrow>
          if ext \<noteq> [] then
            (let (g', fs) = schemaOrReferenceForField ast (fd_Type v) g;
                 vars' = vars\<lparr>paramName := ext, paramIn := loc,
                           paramDesc := filterCommentString X (fd_Comments v),
                           fieldSchema := fs\<rparr>;
                 vars'' = (if req then vars'\<lparr>required := True\<rparr> else vars')
             in if length (ann (fd_Annotations v) OpenapiProperty) > 0 then
                  (case fs of
                     None \<Rightarrow> Inl NilPointerDereference
                   | Some (IsSchema s) \<Rightarrow>
                       Inr (g', vars''\<lparr>fieldSchema :=
                              Some (IsSchema (MergeSchema X s (fd_property_option v)))\<rparr>)
                   | Some (IsReference r) \<Rightarrow>
                       if MergeNilPanics X then Inl NilPointerDereference else Inr (g', vars''))
                else Inr (g', vars''))
          else Inr (g, vars)))"

definition bind_error :: "error + 'a \<Rightarrow> ('a \<Rightarrow> error + 'b) \<Rightarrow> error + 'b" where
  "bind_error r f = (case r of Inl e \<Rightarrow> Inl e | Inr x \<Rightarrow> f x)"

text \<open>
  Lines 368 to 370: the parsed \<^verbatim>\<open>openapi.parameter\<close> payload of the field is merged onto
  the parameter; without the annotation the payload is \<^verbatim>\<open>nil\<close> and nothing changes.
\<close>

definition mergeExtParameter :: "externals \<Rightarrow> Field \<Rightarrow> Parameter \<Rightarrow> Parameter" where
  "mergeExtParameter X v parameter =
     (case fd_parameter_option v of
        None \<Rightarrow> parameter
      | Some extParameter \<Rightarrow> MergeParameter X parameter extParameter)"

text \<open>
  One round of the parameter loop (lines 295 to 377): the four blocks in the order query,
  path, cookie, header, then the parameter, the override merged onto it, and the append.
\<close>

definition buildOperation_field ::
  "externals \<Rightarrow> Thrift \<Rightarrow> Field \<Rightarrow> Generator \<times> Parameter list \<Rightarrow> error + Generator \<times> Parameter list" where
  "buildOperation_field X ast v = (\<lambda>(g, parameters).
     bind_error (locationBlock X ast v ApiQuery ''query'' False
        (g, \<lparr>paramName = [], paramIn = [], paramDesc = [], fieldSchema = None, required = False\<rparr>))
       (\<lambda>st1. bind_error (locationBlock X ast v ApiPath ''path'' True st1)
       (\<lambda>st2. bind_error (locationBlock X ast v ApiCookie ''cookie'' False st2)
       (\<lambda>st3. bind_error (locationBlock X ast v ApiHeader ''header'' False st3)
       (\<lambda>(g', vars).
          (let parameter = \<lparr>p_Name = paramName vars, p_In = paramIn vars,
                 p_Description = paramDesc vars, p_Required = required vars,
                 p_Schema = fieldSchema vars\<rparr>;
               parameter' = mergeExtParameter X v parameter
           in if paramName vars \<noteq> [] \<and> paramIn vars \<noteq> []
              then Inr (g', parameters @ [parameter'])
              else Inr (g', parameters)))))))"

text \<open>A loop whose body may panic: the first error ends it.\<close>

fun fold_error :: "('a \<Rightarrow> 's \<Rightarrow> error + 's) \<Rightarrow> 'a list \<Rightarrow> 's \<Rightarrow> error + 's" where
  "fold_error f [] st = Inr st"
| "fold_error f (x # xs) st = bind_error (f x st) (fold_error f xs)"

text \<open>
  The regular expression \<^verbatim>\<open>:(\w+)\<close> replaced by \<^verbatim>\<open>{$1}\<close> (lines 466 and 467): a colon
  followed by the longest run of word characters, at least one.
\<close>

definition is_word :: "char \<Rightarrow> bool" where
  "is_word c = (let n = (of_char c :: nat) in
     (48 \<le> n \<and> n \<le> 57) \<or> (65 \<le> n \<and> n \<le> 90) \<or> (97 \<le> n \<and> n \<le> 122) \<or> n = 95)"

function ReplaceAllString :: "string \<Rightarrow> string" where
  "ReplaceAllString [] = []"
| "ReplaceAllString (c # cs) =
     (if c = CHR '':'' \<and> takeWhile is_word cs \<noteq> []
      then ''{'' @ takeWhile is_word cs @ ''}'' @ ReplaceAllString (dropWhile is_word cs)
      else c # ReplaceAllString cs)"
  by pat_completeness auto
termination
  by (relation "measure length") (auto simp: length_dropWhile_le less_Suc_eq_le)

text \<open>The request body (lines 378 to 427).\<close>

definition requestBody ::
  "externals \<Rightarrow> Thrift \<Rightarrow> string \<Rightarrow> StructLike \<Rightarrow> Generator \<Rightarrow> Generator \<times> RequestBody option" where
  "requestBody X ast methodName inputDesc g =
     (if methodName \<noteq> ''GET'' \<and> methodName \<noteq> ''HEAD'' \<and> methodName \<noteq> ''DELETE'' then
        (let (g1, bodySchema) = getSchemaByOption X ast inputDesc ApiBody g;
             (g2, formSchema) = getSchemaByOption X ast inputDesc ApiForm g1;
             (g3, rawBodySchema) = getSchemaByOption X ast inputDesc ApiRawBody g2;
             ap1 = (if length (s_Properties bodySchema) > 0
                    then [(''application/json'', IsSchema bodySchema)] else []);
             ap2 = (if length (s_Properties formSchema) > 0
                    then ap1 @ [(''multipart/form-data'', IsSchema formSchema)] else ap1);
             ap3 = (if length (s_Properties rawBodySchema) > 0
                    then ap2 @ [(''application/octet-stream'', IsSchema rawBodySchema)] else ap2)
         in (g3, if length ap3 > 0
                 then Some \<lparr>rb_Description = filterCommentString X (st_Comments inputDesc),
                            rb_Content = ap3\<rparr>
                 else None))
      else (g, None))"

definition buildOperation ::
  "externals \<Rightarrow> Thrift \<Rightarrow> Generator \<times> Document \<Rightarrow> string \<Rightarrow> string \<Rightarrow> string \<Rightarrow> string \<Rightarrow> string
     \<Rightarrow> string \<Rightarrow> StructLike \<Rightarrow> StructLike \<Rightarrow> error + (Generator \<times> Document) \<times> Operation \<times> string" where
  "buildOperation X ast st methodName description operationID tagName path host inputDesc outputDesc =
     (case st of (g, d) \<Rightarrow>
      bind_error (fold_error (buildOperation_field X ast) (st_Fields inputDesc) (g, []))
       (\<lambda>(g1, parameters).
          (let (g2, RequestBody) = requestBody X ast methodName inputDesc g1;
               ((g3, d3), name, header, content) = getResponseForStruct X ast outputDesc (g2, d);
               desc0 = filterCommentString X (st_Comments outputDesc);
               desc = (if desc0 = [] then ''Successful response'' else desc0);
               headerOrEmpty = (if length header \<noteq> 0 then Some header else None);
               contentOrEmpty = (if length content \<noteq> 0 then Some content else None);
               responses =
                 (if headerOrEmpty \<noteq> None \<or> contentOrEmpty \<noteq> None
                  then Some [(name, \<lparr>r_Description = desc, r_Headers = headerOrEmpty,
                                      r_Content = contentOrEmpty\<rparr>)]
                  else None);
               path' = ReplaceAllString path;
               op = \<lparr>o_Tags = [tagName], o_Description = description,
                      o_OperationID = operationID, o_Parameters = parameters,
                      o_Responses = responses, o_RequestBody = RequestBody, o_Servers = []\<rparr>;
               op' = (if host \<noteq> [] then
                        (let host' = (if \<not> prefix ''http://'' host \<and> \<not> prefix ''https://'' host
                                      then ''http://'' @ host else host)
                         in op\<lparr>o_Servers := o_Servers op @ [\<lparr>URL = host'\<rparr>]\<rparr>)
                      else op)
           in Inr ((g3, d3), op', path'))))"


subsection \<open>addOperationToDocument\<close>

definition setOperation :: "string \<Rightarrow> Operation \<Rightarrow> PathItem \<Rightarrow> PathItem" where
  "setOperation methodName op item =
     (if methodName = ''GET'' then item\<lparr>pi_Get := Some op\<rparr>
      else if methodName = ''POST'' then item\<lparr>pi_Post := Some op\<rparr>
      else if methodName = ''PUT'' then item\<lparr>pi_Put := Some op\<rparr>
      else if methodName = ''DELETE'' then item\<lparr>pi_Delete := Some op\<rparr>
      else if methodName = ''PATCH'' then item\<lparr>pi_Patch := Some op\<rparr>
      else if methodName = ''OPTIONS'' then item\<lparr>pi_Options := Some op\<rparr>
      else if methodName = ''HEAD'' then item\<lparr>pi_Head := Some op\<rparr>
      else item)"

text \<open>The selected path item is the first one of that name; it is changed in place.\<close>

fun updateSelected :: "string \<Rightarrow> (PathItem \<Rightarrow> PathItem) \<Rightarrow> (string \<times> PathItem) list \<Rightarrow> (string \<times> PathItem) list" where
  "updateSelected path f [] = []"
| "updateSelected path f (named # rest) =
     (if fst named = path then (fst named, f (snd named)) # rest
      else named # updateSelected path f rest)"

definition addOperationToDocument :: "Document \<Rightarrow> Operation \<Rightarrow> string \<Rightarrow> string \<Rightarrow> Document" where
  "addOperationToDocument d op path methodName =
     (let paths = (if path \<in> set (map fst (d_Paths d)) then d_Paths d
                   else d_Paths d @ [(path, emptyPathItem)])
      in d\<lparr>d_Paths := updateSelected path (setOperation methodName op) paths\<rparr>)"

subsection \<open>addPathsToDocument\<close>

text \<open>
  Lines 244 to 257: the base URL of the function, else the base domain of the service.
\<close>

definition operationHost :: "Service \<Rightarrow> Function \<Rightarrow> string" where
  "operationHost s f =
     (let host = (case GetAnnotation (fn_Annotations f) ApiBaseURL of [] \<Rightarrow> [] | h # _ \<Rightarrow> h)
      in if host = []
         then (case GetAnnotation (sv_Annotations s) ApiBaseDomain of [] \<Rightarrow> [] | h # _ \<Rightarrow> h)
         else host)"

text \<open>
  One round of the loop over the verbs of a function (lines 241 to 272).  A function with
  no argument, or whose first argument or return type names no struct, has a \<^verbatim>\<open>nil\<close>
  descriptor, which buildOperation dereferences.
\<close>

definition addPathsToDocument_method ::
  "externals \<Rightarrow> Thrift \<Rightarrow> Service \<Rightarrow> Function \<Rightarrow> StructLike option \<Rightarrow> StructLike option
     \<Rightarrow> string \<times> string list \<Rightarrow> (Generator \<times> Document) \<times> nat \<Rightarrow> error + (Generator \<times> Document) \<times> nat" where
  "addPathsToDocument_method X ast s f inputDesc outputDesc = (\<lambda>(methodName, path) (st, annotationsCount).
     if methodName \<noteq> [] then
       (let comment = filterCommentString X (fn_ReservedComments f);
            operationID = sv_Name s @ ''_'' @ fn_Name f;
            host = operationHost s f
        in case path of
             [] \<Rightarrow> Inl IndexOutOfRange
           | path0 # _ \<Rightarrow>
              (case inputDesc of
                 None \<Rightarrow> Inl NilPointerDereference
               | Some input \<Rightarrow>
                  (case outputDesc of
                     None \<Rightarrow> Inl NilPointerDereference
                   | Some output \<Rightarrow>
                       bind_error
                         (buildOperation X ast st methodName comment operationID (sv_Name s)
                            path0 host input output)
                         (\<lambda>((g', d'), op, path2).
                            Inr ((g', addOperationToDocument d'
                                        (MergeOperation X op (fn_operation_option f)) path2 methodName),
                                 annotationsCount + 1)))))
     else Inr (st, annotationsCount))"

text \<open>
  One function of a service (lines 224 to 273).  \<open>iter\<close> is the order in which the
  \<^verbatim>\<open>range\<close> over the map of verbs visits its entries, which Go leaves open.
\<close>

definition addPathsToDocument_function ::
  "externals \<Rightarrow> ((string \<times> string list) list \<Rightarrow> (string \<times> string list) list) \<Rightarrow> Thrift \<Rightarrow> Service
     \<Rightarrow> Function \<Rightarrow> (Generator \<times> Document) \<times> nat \<Rightarrow> error + (Generator \<times> Document) \<times> nat" where
  "addPathsToDocument_function X iter ast s f st =
     (let rs = GetAnnotations (fn_Annotations f) HttpMethodAnnotations
      in if length rs = 0 then Inr st
         else
           (let inputDesc = (case fn_Arguments f of [] \<Rightarrow> None
                             | a # _ \<Rightarrow> GetStructDescriptor ast a);
                outputDesc = GetStructDescriptor ast (fn_FunctionType f)
            in fold_error (addPathsToDocument_method X ast s f inputDesc outputDesc) (iter rs) st))"

definition addPathsToDocument_service ::
  "externals \<Rightarrow> ((string \<times> string list) list \<Rightarrow> (string \<times> string list) list) \<Rightarrow> Thrift \<Rightarrow> Service
     \<Rightarrow> Generator \<times> Document \<Rightarrow> error + Generator \<times> Document" where
  "addPathsToDocument_service X iter ast s st =
     bind_error (fold_error (addPathsToDocument_function X iter ast s) (sv_Functions s) (st, 0))
       (\<lambda>((g, d), annotationsCount).
          if annotationsCount > 0
          then Inr (g, d\<lparr>d_Tags := d_Tags d @
                 [\<lparr>t_Name = sv_Name s,
                   t_Description = filterCommentString X (sv_ReservedComments s)\<rparr>]\<rparr>)
          else Inr (g, d))"

definition addPathsToDocument ::
  "externals \<Rightarrow> ((string \<times> string list) list \<Rightarrow> (string \<times> string list) list) \<Rightarrow> Thrift
     \<Rightarrow> Service list \<Rightarrow> Generator \<times> Document \<Rightarrow> error + Generator \<times> Document" where
  "addPathsToDocument X iter ast services st =
     fold_error (addPathsToDocument_service X iter ast) services st"

subsection \<open>addSchemasForStructsToDocument\<close>

text \<open>One field of the loop at lines 692 to 721.\<close>

definition addSchemasForStructsToDocument_field ::
  "externals \<Rightarrow> Thrift \<Rightarrow> Field \<Rightarrow> Generator \<times> (string \<times> SchemaOrReference) list
     \<Rightarrow> Generator \<times> (string \<times> SchemaOrReference) list" where
  "addSchemasForStructsToDocument_field X ast field = (\<lambda>(g, props).
     (let description = filterCommentString X (fd_Comments field);
          (g', fieldSchema) = schemaOrReferenceForField ast (fd_Type field) g
      in case fieldSchema of
           None \<Rightarrow> (g', props)
         | Some fs \<Rightarrow>
            (let fs' = (case fs of
                          IsSchema s \<Rightarrow> IsSchema (MergeSchema X
                            (Schema (s_Type s) (s_Format s) description (s_Properties s)
                               (s_Required s) (s_AdditionalProperties s) (s_Items s) (s_Extra s))
                            (fd_property_option field))
                        | IsReference r \<Rightarrow> IsReference r);
                 extName = fold (\<lambda>option n. case ann (fd_Annotations field) option of
                                    [] \<Rightarrow> n
                                  | e # _ \<Rightarrow> if e \<noteq> [] then e else n)
                             [ApiHeader, ApiBody, ApiForm, ApiRawBody] (fd_Name field)
             in (g', props @ [(extName, fs')]))))"

text \<open>The part of the loop's body after the nested call (lines 675 to 738).\<close>

definition addSchemasForStructsToDocument_struct ::
  "externals \<Rightarrow> Thrift \<Rightarrow> StructLike \<Rightarrow> Generator \<times> Document \<Rightarrow> error + Generator \<times> Document" where
  "addSchemasForStructsToDocument_struct X ast s = (\<lambda>(g, d).
     (let schemaName = st_Name s
      in if \<not> Contains (requiredSchemas g) schemaName \<or> Contains (generatedSchemas g) schemaName
         then Inr (g, d)
         else
           (case GetStructDescriptor ast (st_Name s) of
              None \<Rightarrow> Inl NilPointerDereference
            | Some structDesc \<Rightarrow>
               (let messageDescription = filterCommentString X (st_Comments structDesc);
                    (g', props) = fold (addSchemasForStructsToDocument_field X ast)
                                    (st_Fields structDesc) (g, []);
                    schema = Schema ''object'' [] messageDescription props [] None [] [];
                    schema' = (case st_schema_option structDesc of
                                 None \<Rightarrow> schema
                               | Some extSchema \<Rightarrow> MergeSchema X schema extSchema)
                in Inr (addSchemaToDocument (schemaName, IsSchema schema') (g', d))))))"

text \<open>
  The struct-likes named by the struct-typed fields of \<open>s\<close> (lines 667 to 672);
  \<^verbatim>\<open>getStructLikeByName\<close> gives \<^verbatim>\<open>nil\<close> for a name it does not find, and the \<^verbatim>\<open>nil\<close> is
  appended.
\<close>

definition nestedStructLikes :: "Thrift \<Rightarrow> StructLike \<Rightarrow> StructLike option list" where
  "nestedStructLikes ast s =
     List.map_filter (\<lambda>f. case fd_Type f of
                             StructRef n \<Rightarrow> Some (getStructLikeByName ast n)
                           | _ \<Rightarrow> None) (st_Fields s)"

text \<open>
  The function calls itself on the nested struct-likes of every struct before it looks at
  the struct (line 673), with no test in between, so the recursion has no bound of its own.
  \<open>fuel\<close> bounds its depth: a call that would go deeper gives \<open>OutOfFuel\<close>.  Reading the
  fields of a \<^verbatim>\<open>nil\<close> struct-like dereferences it.
\<close>

fun addSchemasForStructsToDocument ::
  "externals \<Rightarrow> Thrift \<Rightarrow> nat \<Rightarrow> StructLike option list \<Rightarrow> Generator \<times> Document
     \<Rightarrow> error + Generator \<times> Document" where
  "addSchemasForStructsToDocument X ast fuel [] st = Inr st"
| "addSchemasForStructsToDocument X ast 0 (s # structs) st = Inl OutOfFuel"
| "addSchemasForStructsToDocument X ast (Suc fuel) (None # structs) st = Inl NilPointerDereference"
| "addSchemasForStructsToDocument X ast (Suc fuel) (Some s # structs) st =
     bind_error (addSchemasForStructsToDocument X ast fuel (nestedStructLikes ast s) st)
       (\<lambda>st1. bind_error (addSchemasForStructsToDocument_struct X ast s st1)
                 (addSchemasForStructsToDocument X ast (Suc fuel) structs))"


subsection \<open>BuildDocument\<close>

text \<open>
  \<^verbatim>\<open>getDocumentOption\<close>: the first service that carries an \<^verbatim>\<open>openapi.document\<close>
  annotation, else the first struct that does, looked up again by its name.
\<close>

definition getDocumentOption :: "Thrift \<Rightarrow> Document option" where
  "getDocumentOption ast =
     (case find (\<lambda>s. length (ann (sv_Annotations s) OpenapiDocument) > 0) (Services ast) of
        Some s \<Rightarrow>
          (case find (\<lambda>s'. sv_Name s' = sv_Name s) (Services ast) of
             Some serviceDesc \<Rightarrow> sv_document_option serviceDesc
           | None \<Rightarrow> None)
      | None \<Rightarrow>
          (case find (\<lambda>s. length (ann (st_Annotations s) OpenapiDocument) > 0) (Structs ast) of
             Some s \<Rightarrow>
               (case GetStructDescriptor ast (st_Name s) of
                  Some structDesc \<Rightarrow> st_document_option structDesc
                | None \<Rightarrow> None)
           | None \<Rightarrow> None))"

text \<open>
  The loop at lines 87 to 91.  Each round walks all struct-likes and then drops the names
  that were required when the round began.  \<open>rounds\<close> bounds the number of rounds.
\<close>

fun requiredLoop ::
  "externals \<Rightarrow> Thrift \<Rightarrow> nat \<Rightarrow> nat \<Rightarrow> Generator \<times> Document \<Rightarrow> error + Generator \<times> Document" where
  "requiredLoop X ast fuel 0 (g, d) =
     (if length (requiredSchemas g) > 0 then Inl OutOfFuel else Inr (g, d))"
| "requiredLoop X ast fuel (Suc rounds) (g, d) =
     (if length (requiredSchemas g) > 0 then
        (let count = length (requiredSchemas g)
         in bind_error
              (addSchemasForStructsToDocument X ast fuel (map Some (GetStructLikes ast)) (g, d))
              (\<lambda>(g', d'). requiredLoop X ast fuel rounds
                  (g'\<lparr>requiredSchemas := drop count (requiredSchemas g')\<rparr>, d')))
      else Inr (g, d))"

text \<open>Lines 95 to 103: a single tag lends its name and description to the info.\<close>

definition promoteSingleTag :: "Document \<Rightarrow> Document" where
  "promoteSingleTag d =
     (case d_Tags d of
        [tag] \<Rightarrow>
          (let info = d_Info d;
               info1 = (if i_Title info = [] \<and> t_Name tag \<noteq> []
                        then info\<lparr>i_Title := t_Name tag @ '' API''\<rparr> else info);
               info2 = (if i_Description info1 = []
                        then info1\<lparr>i_Description := t_Description tag\<rparr> else info1)
           in d\<lparr>d_Info := info2, d_Tags := [tag\<lparr>t_Description := []\<rparr>]\<rparr>)
      | _ \<Rightarrow> d)"

text \<open>
  Lines 108 to 152, for one path.  Only the operations under Get, Post, Put, Delete and
  Patch are looked at, in that order, and only their servers are cleared.
\<close>

definition collectServer :: "Operation option \<Rightarrow> string list \<times> string list \<Rightarrow> string list \<times> string list" where
  "collectServer op = (\<lambda>(servers, allServers).
     (case op of
        None \<Rightarrow> (servers, allServers)
      | Some operation \<Rightarrow>
          (case o_Servers operation of
             [server] \<Rightarrow> (AppendUnique servers (URL server), AppendUnique allServers (URL server))
           | _ \<Rightarrow> (servers, allServers))))"

definition clearServers :: "Operation option \<Rightarrow> Operation option" where
  "clearServers op = map_option (\<lambda>operation. operation\<lparr>o_Servers := []\<rparr>) op"

definition hoistServers :: "PathItem \<Rightarrow> string list \<Rightarrow> PathItem \<times> string list" where
  "hoistServers v allServers =
     (let (servers, allServers') =
            collectServer (pi_Patch v) (collectServer (pi_Delete v) (collectServer (pi_Put v)
              (collectServer (pi_Post v) (collectServer (pi_Get v) ([], allServers)))))
      in (case servers of
            [server] \<Rightarrow>
              (v\<lparr>pi_Servers := [\<lparr>URL = server\<rparr>],
                 pi_Get := clearServers (pi_Get v), pi_Post := clearServers (pi_Post v),
                 pi_Put := clearServers (pi_Put v), pi_Delete := clearServers (pi_Delete v),
                 pi_Patch := clearServers (pi_Patch v)\<rparr>, allServers')
          | _ \<Rightarrow> (v, allServers')))"

fun hoistAll :: "(string \<times> PathItem) list \<Rightarrow> string list \<Rightarrow> (string \<times> PathItem) list \<times> string list" where
  "hoistAll [] allServers = ([], allServers)"
| "hoistAll ((name, v) # paths) allServers =
     (let (v', allServers') = hoistServers v allServers;
          (paths', allServers'') = hoistAll paths allServers'
      in ((name, v') # paths', allServers''))"

text \<open>Lines 105 to 167.\<close>

definition serversToDocument :: "Document \<Rightarrow> Document" where
  "serversToDocument d =
     (let (paths, allServers) = hoistAll (d_Paths d) [];
          d1 = d\<lparr>d_Paths := paths\<rparr>;
          d2 = (if length allServers > 0
                then d1\<lparr>d_Servers := map (\<lambda>server. \<lparr>URL = server\<rparr>) allServers\<rparr> else d1)
      in if length allServers = 1
         then d2\<lparr>d_Paths := map (\<lambda>(name, v). (name, v\<lparr>pi_Servers := []\<rparr>)) (d_Paths d2)\<rparr>
         else d2)"

text \<open>
  Lines 168 to 191: \<^verbatim>\<open>sort.Slice\<close> by name.  Go's sort says nothing about the order of
  entries of equal name; \<open>sort_key\<close> keeps them as they were.
\<close>

definition sortDocument :: "Document \<Rightarrow> Document" where
  "sortDocument d = d\<lparr>d_Tags := sort_key t_Name (d_Tags d),
                      d_Paths := sort_key fst (d_Paths d),
                      d_Schemas := sort_key fst (d_Schemas d)\<rparr>"

text \<open>The generator and the document as lines 49 to 75 set them up.\<close>

definition newGenerator :: Generator where
  "newGenerator = \<lparr>generatedSchemas = [], requiredSchemas = []\<rparr>"

definition newDocument :: Document where
  "newDocument = \<lparr>d_Openapi = ''3.0.3'',
     d_Info = \<lparr>i_Title = ''API'', i_Description = ''API description'', i_Version = ''1.0.0''\<rparr>,
     d_Servers = [], d_Paths = [], d_Schemas = [], d_Tags = []\<rparr>"

text \<open>
  The document that \<^verbatim>\<open>BuildDocument\<close> hands to the YAML encoder (lines 60 to 191).
\<close>

definition BuildDocument ::
  "externals \<Rightarrow> ((string \<times> string list) list \<Rightarrow> (string \<times> string list) list) \<Rightarrow> nat \<Rightarrow> Thrift
     \<Rightarrow> error + Document" where
  "BuildDocument X iter fuel ast =
     (let d0 = newDocument;
          d1 = (case getDocumentOption ast of
                  None \<Rightarrow> d0
                | Some extDocument \<Rightarrow> MergeDocument X d0 extDocument);
          g0 = newGenerator
      in bind_error (addPathsToDocument X iter ast (Services ast) (g0, d1))
           (\<lambda>st. bind_error (requiredLoop X ast fuel fuel st)
           (\<lambda>(g, d). Inr (sortDocument (serversToDocument (promoteSingleTag d))))))"


section \<open>Notions used in the statements\<close>

text \<open>
  The name a location block takes from its annotation: the first value, when the annotation
  is there and that value is not empty.
\<close>

definition annotated :: "Field \<Rightarrow> string \<Rightarrow> string option" where
  "annotated v key =
     (case ann (fd_Annotations v) key of
        [] \<Rightarrow> None
      | ext # _ \<Rightarrow> if ext \<noteq> [] then Some ext else None)"

text \<open>
  The location annotations of a field that name a parameter, as pairs of location and
  name, in the fixed order query, path, cookie, header.
\<close>

definition presentLocations :: "Field \<Rightarrow> (string \<times> string) list" where
  "presentLocations v =
     List.map_filter (\<lambda>(key, loc). map_option (\<lambda>ext. (loc, ext)) (annotated v key))
       [(ApiQuery, ''query''), (ApiPath, ''path''), (ApiCookie, ''cookie''),
        (ApiHeader, ''header'')]"

text \<open>
  What one field contributes to the parameter list of an operation: nothing, or the one
  parameter of its last location, required exactly when a path annotation names it, with
  the field's override merged on top.
\<close>

definition contribution :: "externals \<Rightarrow> Field \<Rightarrow> Parameter list \<Rightarrow> bool" where
  "contribution X v c =
     (case presentLocations v of
        [] \<Rightarrow> c = []
      | _ \<Rightarrow> (\<exists>sch. c = [mergeExtParameter X v
                 \<lparr>p_Name = snd (last (presentLocations v)),
                   p_In = fst (last (presentLocations v)),
                   p_Description = filterCommentString X (fd_Comments v),
                   p_Required = (annotated v ApiPath \<noteq> None),
                   p_Schema = sch\<rparr>]))"

text \<open>
  A path item whose operations sit under Get, Post, Put, Delete or Patch, at least one of
  them, and each declare the one server \<open>u\<close>.
\<close>

definition declares :: "string \<Rightarrow> Operation option \<Rightarrow> bool" where
  "declares u op = (case op of None \<Rightarrow> True | Some operation \<Rightarrow> o_Servers operation = [\<lparr>URL = u\<rparr>])"

definition uniform :: "string \<Rightarrow> PathItem \<Rightarrow> bool" where
  "uniform u v =
     (declares u (pi_Get v) \<and> declares u (pi_Post v) \<and> declares u (pi_Put v) \<and>
      declares u (pi_Delete v) \<and> declares u (pi_Patch v) \<and>
      pi_Options v = None \<and> pi_Head v = None \<and>
      [pi_Get v, pi_Post v, pi_Put v, pi_Delete v, pi_Patch v] \<noteq> [None, None, None, None, None])"

definition cleared :: "PathItem \<Rightarrow> PathItem" where
  "cleared v = v\<lparr>pi_Get := clearServers (pi_Get v), pi_Post := clearServers (pi_Post v),
                 pi_Put := clearServers (pi_Put v), pi_Delete := clearServers (pi_Delete v),
                 pi_Patch := clearServers (pi_Patch v)\<rparr>"



section \<open>Example inputs\<close>

text \<open>
  Modelled from the spec: \<^verbatim>\<open>utils.MergeStructs\<close>, of package utils, which is not among the
  sources.  The spec has it as "for each field set in the override, replace; otherwise keep
  base".  A field is set when it is not the zero value of its type.
\<close>

definition pick :: "'a list \<Rightarrow> 'a list \<Rightarrow> 'a list" where
  "pick base override = (if override = [] then base else override)"

definition pickOption :: "'a option \<Rightarrow> 'a option \<Rightarrow> 'a option" where
  "pickOption base override = (case override of None \<Rightarrow> base | Some x \<Rightarrow> Some x)"

definition mergeSchema :: "Schema \<Rightarrow> Schema \<Rightarrow> Schema" where
  "mergeSchema base override =
     Schema (pick (s_Type base) (s_Type override)) (pick (s_Format base) (s_Format override))
       (pick (s_Description base) (s_Description override))
       (pick (s_Properties base) (s_Properties override))
       (pick (s_Required base) (s_Required override))
       (pickOption (s_AdditionalProperties base) (s_AdditionalProperties override))
       (pick (s_Items base) (s_Items override)) (pick (s_Extra base) (s_Extra override))"

definition mergeParameter :: "Parameter \<Rightarrow> Parameter \<Rightarrow> Parameter" where
  "mergeParameter base override =
     \<lparr>p_Name = pick (p_Name base) (p_Name override), p_In = pick (p_In base) (p_In override),
      p_Description = pick (p_Description base) (p_Description override),
      p_Required = (if p_Required override then True else p_Required base),
      p_Schema = pickOption (p_Schema base) (p_Schema override)\<rparr>"

definition mergeOperation :: "Operation \<Rightarrow> Operation \<Rightarrow> Operation" where
  "mergeOperation base override =
     \<lparr>o_Tags = pick (o_Tags base) (o_Tags override),
      o_Description = pick (o_Description base) (o_Description override),
      o_OperationID = pick (o_OperationID base) (o_OperationID override),
      o_Parameters = pick (o_Parameters base) (o_Parameters override),
      o_Responses = pickOption (o_Responses base) (o_Responses override),
      o_RequestBody = pickOption (o_RequestBody base) (o_RequestBody override),
      o_Servers = pick (o_Servers base) (o_Servers override)\<rparr>"

definition mergeDocument :: "Document \<Rightarrow> Document \<Rightarrow> Document" where
  "mergeDocument base override =
     \<lparr>d_Openapi = pick (d_Openapi base) (d_Openapi override),
      d_Info = \<lparr>i_Title = pick (i_Title (d_Info base)) (i_Title (d_Info override)),
                i_Description = pick (i_Description (d_Info base)) (i_Description (d_Info override)),
                i_Version = pick (i_Version (d_Info base)) (i_Version (d_Info override))\<rparr>,
      d_Servers = pick (d_Servers base) (d_Servers override),
      d_Paths = pick (d_Paths base) (d_Paths override),
      d_Schemas = pick (d_Schemas base) (d_Schemas override),
      d_Tags = pick (d_Tags base) (d_Tags override)\<rparr>"

text \<open>
  The examples carry no comment and no override.  On the empty comment
  \<^verbatim>\<open>filterCommentString\<close> finds no match and joins nothing, which is the empty string, so on
  the examples it agrees with the identity.
\<close>

definition plainExternals :: externals where
  "plainExternals =
     \<lparr>filterCommentString = (\<lambda>str. str), MergeDocument = mergeDocument,
      MergeOperation = mergeOperation, MergeSchema = mergeSchema,
      MergeParameter = mergeParameter, MergeNilPanics = True\<rparr>"

text \<open>The order of the table, as one order in which a \<^verbatim>\<open>range\<close> may visit the verbs.\<close>

definition tableOrder :: "(string \<times> string list) list \<Rightarrow> (string \<times> string list) list" where
  "tableOrder rs = rs"

definition field :: "string \<Rightarrow> TypeDescriptor \<Rightarrow> Annotations \<Rightarrow> Field" where
  "field name type annotations =
     \<lparr>fd_Name = name, fd_Type = type, fd_Comments = [], fd_Annotations = annotations,
      fd_property_option = emptySchema, fd_parameter_option = None\<rparr>"

definition struct :: "string \<Rightarrow> Field list \<Rightarrow> StructLike" where
  "struct name fs =
     \<lparr>st_Name = name, st_Comments = [], st_Annotations = [], st_Fields = fs,
      st_schema_option = None, st_document_option = None\<rparr>"

definition rpc :: "string \<Rightarrow> Annotations \<Rightarrow> string \<Rightarrow> string \<Rightarrow> Function" where
  "rpc name annotations argument result =
     \<lparr>fn_Name = name, fn_ReservedComments = [], fn_Annotations = annotations,
      fn_Arguments = [argument], fn_FunctionType = result,
      fn_operation_option = emptyOperation\<rparr>"

definition service :: "string \<Rightarrow> Annotations \<Rightarrow> Function list \<Rightarrow> Service" where
  "service name annotations fns =
     \<lparr>sv_Name = name, sv_ReservedComments = [], sv_Annotations = annotations,
      sv_Functions = fns, sv_document_option = None\<rparr>"

definition emptyRequest :: StructLike where
  "emptyRequest = struct ''Req'' []"

definition emptyResponse :: StructLike where
  "emptyResponse = struct ''Resp'' []"

text \<open>
  The operation built for a method of service \<open>S\<close> at path \<^verbatim>\<open>/a\<close>, whose request struct
  has the given fields and whose response struct is empty.
\<close>

definition exampleAst :: "Field list \<Rightarrow> Thrift" where
  "exampleAst fs = \<lparr>Services = [], Structs = [struct ''Req'' fs, emptyResponse],
     Unions = [], Exceptions = []\<rparr>"

definition exampleOperation ::
  "string \<Rightarrow> Field list \<Rightarrow> error + (Generator \<times> Document) \<times> Operation \<times> string" where
  "exampleOperation methodName fs =
     buildOperation plainExternals (exampleAst fs) (newGenerator, newDocument) methodName []
       ''S_M'' ''S'' ''/a'' [] (struct ''Req'' fs) emptyResponse"

definition stringParameter :: "string \<Rightarrow> string \<Rightarrow> bool \<Rightarrow> Parameter" where
  "stringParameter name location req =
     \<lparr>p_Name = name, p_In = location, p_Description = [], p_Required = req,
      p_Schema = Some (typed ''string'' [])\<rparr>"

definition parametersOperation :: "Parameter list \<Rightarrow> Operation" where
  "parametersOperation ps =
     \<lparr>o_Tags = [''S''], o_Description = [], o_OperationID = ''S_M'', o_Parameters = ps,
      o_Responses = None, o_RequestBody = None, o_Servers = []\<rparr>"

definition bodyFields :: "Field list" where
  "bodyFields =
     [field ''b'' (Named ''string'') [(ApiBody, [''b''])],
      field ''f'' (Named ''string'') [(ApiForm, [''f''])],
      field ''r'' (Named ''binary'') [(ApiRawBody, [''r''])]]"

definition lastWinsFields :: "Field list" where
  "lastWinsFields =
     [field ''x'' (Named ''string'') [(ApiQuery, [''q'']), (ApiPath, [''p'']), (ApiHeader, [''h''])],
      field ''y'' (Named ''i32'') []]"

definition emptyHeaderFields :: "Field list" where
  "emptyHeaderFields = [field ''x'' (Named ''string'') [(ApiQuery, [''q'']), (ApiHeader, [[]])]]"

definition pathAndQueryFields :: "Field list" where
  "pathAndQueryFields =
     [field ''id'' (Named ''string'') [(ApiPath, [''id''])],
      field ''q'' (Named ''string'') [(ApiQuery, [''q''])]]"

definition emptyPathFields :: "Field list" where
  "emptyPathFields = [field ''id'' (Named ''string'') [(ApiPath, [[]])]]"

definition pathAndCookieFields :: "Field list" where
  "pathAndCookieFields = [field ''t'' (Named ''string'') [(ApiPath, [''t'']), (ApiCookie, [''c''])]]"

definition emptyPathAndHeaderFields :: "Field list" where
  "emptyPathAndHeaderFields = [field ''t'' (Named ''string'') [(ApiPath, [[]]), (ApiHeader, [''h''])]]"

text \<open>
  Two services declared in the order Zeta, Alpha, with paths \<^verbatim>\<open>/b\<close> and \<^verbatim>\<open>/a\<close>; the
  response struct is emitted while the paths are built and the struct it refers to
  afterwards.  \<open>sortingDocument\<close> is the document built from them.
\<close>

definition respondingOperation :: "string \<Rightarrow> string \<Rightarrow> Operation" where
  "respondingOperation tag operationID =
     \<lparr>o_Tags = [tag], o_Description = [], o_OperationID = operationID, o_Parameters = [],
      o_Responses = Some [(''200'', \<lparr>r_Description = ''Successful response'', r_Headers = None,
         r_Content = Some [(''application/json'', IsReference ''#/components/schemas/Resp'')]\<rparr>)],
      o_RequestBody = None, o_Servers = []\<rparr>"

definition sortingAst :: Thrift where
  "sortingAst = \<lparr>Services =
      [service ''Zeta'' [] [rpc ''List'' [(ApiGet, [''/b''])] ''Req'' ''Resp''],
       service ''Alpha'' [] [rpc ''Get'' [(ApiGet, [''/a''])] ''Req'' ''Resp'']],
     Structs = [emptyRequest,
       struct ''Resp'' [field ''item'' (StructRef ''Item'') [(ApiBody, [''item''])]],
       struct ''Item'' [field ''id'' (Named ''i64'') []]],
     Unions = [], Exceptions = []\<rparr>"

definition sortingDocument :: Document where
  "sortingDocument = newDocument
     \<lparr>d_Paths :=
        [(''/a'', emptyPathItem\<lparr>pi_Get := Some (respondingOperation ''Alpha'' ''Alpha_Get'')\<rparr>),
         (''/b'', emptyPathItem\<lparr>pi_Get := Some (respondingOperation ''Zeta'' ''Zeta_List'')\<rparr>)],
      d_Schemas :=
        [(''Item'', IsSchema (Schema ''object'' [] [] [(''id'', typed ''integer'' ''int64'')] [] None [] [])),
         (''Resp'', IsSchema (Schema ''object'' [] []
             [(''item'', IsReference ''#/components/schemas/Item'')] [] None [] []))],
      d_Tags := [\<lparr>t_Name = ''Alpha'', t_Description = []\<rparr>, \<lparr>t_Name = ''Zeta'', t_Description = []\<rparr>]\<rparr>"










text \<open>
  Three operations on two paths under one base domain, one of them under HEAD; and the same
  with PUT in the place of HEAD.
\<close>

definition headServerAst :: Thrift where
  "headServerAst = \<lparr>Services = [service ''S'' [(ApiBaseDomain, [''example.com''])]
       [rpc ''A'' [(ApiGet, [''/a''])] ''Req'' ''Resp'',
        rpc ''B'' [(ApiHEAD, [''/a''])] ''Req'' ''Resp'',
        rpc ''C'' [(ApiPost, [''/b''])] ''Req'' ''Resp'']],
     Structs = [emptyRequest, emptyResponse],
     Unions = [], Exceptions = []\<rparr>"

definition putServerAst :: Thrift where
  "putServerAst = \<lparr>Services = [service ''S'' [(ApiBaseDomain, [''example.com''])]
       [rpc ''A'' [(ApiGet, [''/a''])] ''Req'' ''Resp'',
        rpc ''B'' [(ApiPut, [''/a''])] ''Req'' ''Resp'',
        rpc ''C'' [(ApiPost, [''/b''])] ''Req'' ''Resp'']],
     Structs = [emptyRequest, emptyResponse],
     Unions = [], Exceptions = []\<rparr>"

text \<open>
  A function exposed under two verbs at two paths, and a second function, with another
  base URL, at one of these paths.
\<close>

definition serverOrderAst :: Thrift where
  "serverOrderAst = \<lparr>Services = [service ''S'' []
       [rpc ''F'' [(ApiGet, [''/b'']), (ApiPost, [''/a'']), (ApiBaseURL, [''one.example''])]
          ''Req'' ''Resp'',
        rpc ''G'' [(ApiGet, [''/a'']), (ApiBaseURL, [''two.example''])] ''Req'' ''Resp'']],
     Structs = [emptyRequest, emptyResponse],
     Unions = [], Exceptions = []\<rparr>"

text \<open>
  A request whose json-body field is a \<open>Node\<close>: a struct with a field of its own type,
  and one that holds a list of its own type instead.
\<close>

definition nodeStruct :: StructLike where
  "nodeStruct = struct ''Node'' [field ''next'' (StructRef ''Node'') []]"

definition nodeRequest :: StructLike where
  "nodeRequest = struct ''Req'' [field ''n'' (StructRef ''Node'') [(ApiBody, [''n''])]]"

definition selfReferenceAst :: Thrift where
  "selfReferenceAst = \<lparr>Services = [service ''S'' [] [rpc ''A'' [(ApiPost, [''/a''])] ''Req'' ''Resp'']],
     Structs = [nodeRequest, emptyResponse, nodeStruct],
     Unions = [], Exceptions = []\<rparr>"

definition listReferenceAst :: Thrift where
  "listReferenceAst = \<lparr>Services = [service ''S'' [] [rpc ''A'' [(ApiPost, [''/a''])] ''Req'' ''Resp'']],
     Structs = [nodeRequest, emptyResponse,
                    struct ''Node'' [field ''children'' (ListOf (StructRef ''Node'')) []]],
     Unions = [], Exceptions = []\<rparr>"

text \<open>
  A field whose struct type has no descriptor, with a property override that sets a
  title: as a query parameter, and as a json-body field.
\<close>

definition titled :: "Field \<Rightarrow> Field" where
  "titled v = v\<lparr>fd_Annotations := fd_Annotations v @ [(OpenapiProperty, [''title: m''])],
               fd_property_option := Schema [] [] [] [] [] None [] [(''title'', ''m'')]\<rparr>"

definition unresolvedAst :: Thrift where
  "unresolvedAst = \<lparr>Services = [service ''S'' [] [rpc ''A'' [(ApiGet, [''/a''])] ''Req'' ''Resp'']],
     Structs =
       [struct ''Req'' [titled (field ''m'' (StructRef ''Missing'') [(ApiQuery, [''m''])])],
        emptyResponse],
     Unions = [], Exceptions = []\<rparr>"

definition unresolvedBodyAst :: Thrift where
  "unresolvedBodyAst = \<lparr>Services = [service ''S'' [] [rpc ''A'' [(ApiPost, [''/a''])] ''Req'' ''Resp'']],
     Structs =
       [struct ''Req'' [titled (field ''m'' (StructRef ''Missing'') [(ApiBody, [''m''])]),
                        field ''k'' (Named ''string'') [(ApiBody, [''k''])]],
        emptyResponse],
     Unions = [], Exceptions = []\<rparr>"


section \<open>Parameters and request body of an operation\<close>

lemma locationBlock_Inr:
  assumes "locationBlock X ast v key loc req (g, vars) = Inr (g', vars')"
  shows "case annotated v key of
           None \<Rightarrow> g' = g \<and> vars' = vars
         | Some ext \<Rightarrow> paramName vars' = ext \<and> paramIn vars' = loc
              \<and> paramDesc vars' = filterCommentString X (fd_Comments v)
              \<and> required vars' = (req \<or> required vars)"
  using assms
  by (auto simp: locationBlock_def annotated_def Let_def
      split: list.splits if_splits prod.splits option.splits SchemaOrReference.splits)

lemma presentLocations_cases:
  "presentLocations v =
     (case annotated v ApiQuery of None \<Rightarrow> [] | Some e \<Rightarrow> [(''query'', e)]) @
     (case annotated v ApiPath of None \<Rightarrow> [] | Some e \<Rightarrow> [(''path'', e)]) @
     (case annotated v ApiCookie of None \<Rightarrow> [] | Some e \<Rightarrow> [(''cookie'', e)]) @
     (case annotated v ApiHeader of None \<Rightarrow> [] | Some e \<Rightarrow> [(''header'', e)])"
  by (simp add: presentLocations_def split: option.splits)

lemma presentLocations_path:
  "annotated v ApiPath \<noteq> None \<Longrightarrow> presentLocations v \<noteq> []"
  by (auto simp: presentLocations_cases)

lemma presentLocations_last_header:
  "annotated v ApiHeader = Some h \<Longrightarrow> last (presentLocations v) = (''header'', h)"
  by (simp add: presentLocations_cases)

lemma presentLocations_last_cookie:
  "annotated v ApiHeader = None \<Longrightarrow> annotated v ApiCookie = Some c
     \<Longrightarrow> last (presentLocations v) = (''cookie'', c)"
  by (simp add: presentLocations_cases)

text \<open>One round of the parameter loop appends the contribution of its field.\<close>

lemma buildOperation_field_Inr:
  assumes "buildOperation_field X ast v (g, ps) = Inr (g', ps')"
  shows "\<exists>c. ps' = ps @ c \<and> contribution X v c"
proof -
  from assms obtain g1 v1 g2 v2 g3 v3 g4 v4 where
    b1: "locationBlock X ast v ApiQuery ''query'' False
           (g, \<lparr>paramName = [], paramIn = [], paramDesc = [], fieldSchema = None,
                required = False\<rparr>) = Inr (g1, v1)"
    and b2: "locationBlock X ast v ApiPath ''path'' True (g1, v1) = Inr (g2, v2)"
    and b3: "locationBlock X ast v ApiCookie ''cookie'' False (g2, v2) = Inr (g3, v3)"
    and b4: "locationBlock X ast v ApiHeader ''header'' False (g3, v3) = Inr (g4, v4)"
    and fin: "ps' = (if paramName v4 \<noteq> [] \<and> paramIn v4 \<noteq> []
                     then ps @ [mergeExtParameter X v
                       \<lparr>p_Name = paramName v4, p_In = paramIn v4, p_Description = paramDesc v4,
                         p_Required = required v4, p_Schema = fieldSchema v4\<rparr>]
                     else ps)"
    by (auto simp: buildOperation_field_def bind_error_def Let_def
        split: sum.splits prod.splits if_splits)
  note c1 = locationBlock_Inr[OF b1] and c2 = locationBlock_Inr[OF b2]
    and c3 = locationBlock_Inr[OF b3] and c4 = locationBlock_Inr[OF b4]
  have ne: "\<And>k e. annotated v k = Some e \<Longrightarrow> e \<noteq> []"
    by (auto simp: annotated_def split: list.splits if_splits)
  show ?thesis
    using c1 c2 c3 c4 fin ne
    by (cases "annotated v ApiQuery"; cases "annotated v ApiPath"; cases "annotated v ApiCookie";
        cases "annotated v ApiHeader") (auto simp: presentLocations_cases contribution_def)
qed

lemma fold_buildOperation_field:
  assumes "fold_error (buildOperation_field X ast) vs (g, ps) = Inr (g', ps')"
  shows "\<exists>cs. ps' = ps @ concat cs \<and> list_all2 (contribution X) vs cs"
  using assms
proof (induction vs arbitrary: g ps)
  case Nil
  then show ?case by simp
next
  case (Cons v vs)
  from Cons.prems obtain g1 ps1 where
    step: "buildOperation_field X ast v (g, ps) = Inr (g1, ps1)"
    and rest: "fold_error (buildOperation_field X ast) vs (g1, ps1) = Inr (g', ps')"
    by (auto simp: bind_error_def split: sum.splits)
  from buildOperation_field_Inr[OF step] obtain c where
    c: "ps1 = ps @ c" "contribution X v c"
    by blast
  from Cons.IH[OF rest] obtain cs where
    cs: "ps' = ps1 @ concat cs" "list_all2 (contribution X) vs cs"
    by blast
  have "ps' = ps @ concat (c # cs)" using c cs by simp
  moreover have "list_all2 (contribution X) (v # vs) (c # cs)" using c cs by simp
  ultimately show ?case by blast
qed

lemma buildOperation_Inr:
  assumes "buildOperation X ast st methodName description operationID tagName path host
             inputDesc outputDesc = Inr (st', op, path')"
  shows "\<exists>g1 ps. fold_error (buildOperation_field X ast) (st_Fields inputDesc) (fst st, [])
                    = Inr (g1, ps)
           \<and> o_Parameters op = ps
           \<and> o_RequestBody op = snd (requestBody X ast methodName inputDesc g1)
           \<and> path' = ReplaceAllString path"
proof (cases "fold_error (buildOperation_field X ast) (st_Fields inputDesc) (fst st, [])")
  case (Inl e)
  with assms show ?thesis
    by (simp add: buildOperation_def bind_error_def split: prod.splits)
next
  case (Inr r)
  obtain g1 ps where r: "r = (g1, ps)" by (cases r)
  from assms Inr r show ?thesis
    by (auto simp: buildOperation_def bind_error_def Let_def split: prod.splits if_splits)
qed

lemma buildOperation_contributions:
  assumes "buildOperation X ast st methodName description operationID tagName path host
             inputDesc outputDesc = Inr (st', op, path')"
  shows "\<exists>cs. o_Parameters op = concat cs \<and> list_all2 (contribution X) (st_Fields inputDesc) cs"
proof -
  from buildOperation_Inr[OF assms] obtain g1 ps where
    "fold_error (buildOperation_field X ast) (st_Fields inputDesc) (fst st, []) = Inr (g1, ps)"
    "o_Parameters op = ps" by blast
  with fold_buildOperation_field[of X ast "st_Fields inputDesc" "fst st" "[]" g1 ps]
  show ?thesis by auto
qed

lemma contributionD:
  assumes "contribution X v c"
  shows "(presentLocations v = [] \<and> c = []) \<or>
         (presentLocations v \<noteq> [] \<and> (\<exists>sch. c = [mergeExtParameter X v
                 \<lparr>p_Name = snd (last (presentLocations v)),
                   p_In = fst (last (presentLocations v)),
                   p_Description = filterCommentString X (fd_Comments v),
                   p_Required = (annotated v ApiPath \<noteq> None),
                   p_Schema = sch\<rparr>]))"
  using assms by (auto simp: contribution_def split: list.splits)

text \<open>
  Claim C2.  An operation built under the verb GET, HEAD or DELETE has no request body,
  whatever the fields of the input struct are annotated with.
\<close>

theorem get_head_delete_have_no_request_body:
  assumes "methodName = ''GET'' \<or> methodName = ''HEAD'' \<or> methodName = ''DELETE''"
    and "buildOperation X ast st methodName description operationID tagName path host
           inputDesc outputDesc = Inr (st', op, path')"
  shows "o_RequestBody op = None"
proof -
  from buildOperation_Inr[OF assms(2)] obtain g1 where
    "o_RequestBody op = snd (requestBody X ast methodName inputDesc g1)" by blast
  with assms(1) show ?thesis by (auto simp: requestBody_def)
qed

text \<open>
  A request struct with a json-body, a form-body and a raw-body field, under GET: the
  operation is built and carries no body.
\<close>

theorem get_head_delete_have_no_request_body_witness:
  "(''GET'' = ''GET'' \<or> ''GET'' = ''HEAD'' \<or> ''GET'' = ''DELETE'') \<and>
   exampleOperation ''GET'' bodyFields
     = Inr ((newGenerator, newDocument), parametersOperation [], ''/a'') \<and>
   o_RequestBody (parametersOperation []) = None"
proof -
  have verb: "''GET'' = ''GET'' \<or> ''GET'' = ''HEAD'' \<or> ''GET'' = ''DELETE''" by simp
  have run: "buildOperation plainExternals (exampleAst bodyFields) (newGenerator, newDocument)
       ''GET'' [] ''S_M'' ''S'' ''/a'' [] (struct ''Req'' bodyFields) emptyResponse
     = Inr ((newGenerator, newDocument), parametersOperation [], ''/a'')"
    by code_simp
  from get_head_delete_have_no_request_body[OF verb run] run show ?thesis
    by (simp add: exampleOperation_def)
qed

text \<open>
  Claim C3, as the code has it.  Every field of the input struct contributes at most one
  parameter to the operation.  Of the location annotations of the field that carry a
  non-empty name, taken in the order query, path, cookie, header, the last one gives the
  generated parameter its location and its name; with no such annotation the field
  contributes nothing.  The parameter override of the field, if any, is merged on top.
\<close>

theorem last_named_location_wins:
  assumes "buildOperation X ast st methodName description operationID tagName path host
             inputDesc outputDesc = Inr (st', op, path')"
  shows "\<exists>cs. o_Parameters op = concat cs \<and>
           list_all2 (\<lambda>v c. length c \<le> 1 \<and>
               (presentLocations v = [] \<longrightarrow> c = []) \<and>
               (presentLocations v \<noteq> [] \<longrightarrow>
                  (\<exists>p. c = [mergeExtParameter X v p] \<and>
                       (p_In p, p_Name p) = last (presentLocations v))))
             (st_Fields inputDesc) cs"
proof -
  let ?Q = "(\<lambda>v c. length c \<le> 1 \<and>
               (presentLocations v = [] \<longrightarrow> c = []) \<and>
               (presentLocations v \<noteq> [] \<longrightarrow>
                  (\<exists>p. c = [mergeExtParameter X v p] \<and>
                       (p_In p, p_Name p) = last (presentLocations v))))"
  from buildOperation_contributions[OF assms] obtain cs where
    cs: "o_Parameters op = concat cs" "list_all2 (contribution X) (st_Fields inputDesc) cs"
    by blast
  have "list_all2 ?Q (st_Fields inputDesc) cs"
  proof (rule list_all2_mono[OF cs(2)])
    fix v c assume "contribution X v c"
    from contributionD[OF this] show "?Q v c"
      by (elim disjE conjE exE) (simp, force)
  qed
  with cs(1) show ?thesis by blast
qed

text \<open>
  A field with a query, a path and a header annotation, followed by a field with none:
  one parameter, in the header.
\<close>

theorem last_named_location_wins_witness:
  "exampleOperation ''GET'' lastWinsFields
     = Inr ((newGenerator, newDocument),
            parametersOperation [stringParameter ''h'' ''header'' True], ''/a'') \<and>
   map presentLocations lastWinsFields
     = [[(''query'', ''q''), (''path'', ''p''), (''header'', ''h'')], []] \<and>
   (\<exists>cs. o_Parameters (parametersOperation [stringParameter ''h'' ''header'' True]) = concat cs \<and>
      list_all2 (\<lambda>v c. length c \<le> 1 \<and>
               (presentLocations v = [] \<longrightarrow> c = []) \<and>
               (presentLocations v \<noteq> [] \<longrightarrow>
                  (\<exists>p. c = [mergeExtParameter plainExternals v p] \<and>
                       (p_In p, p_Name p) = last (presentLocations v))))
        (st_Fields (struct ''Req'' lastWinsFields)) cs)"
proof -
  have run: "buildOperation plainExternals (exampleAst lastWinsFields) (newGenerator, newDocument)
       ''GET'' [] ''S_M'' ''S'' ''/a'' [] (struct ''Req'' lastWinsFields) emptyResponse
     = Inr ((newGenerator, newDocument),
            parametersOperation [stringParameter ''h'' ''header'' True], ''/a'')"
    by code_simp
  have present: "map presentLocations lastWinsFields
     = [[(''query'', ''q''), (''path'', ''p''), (''header'', ''h'')], []]"
    by code_simp
  from last_named_location_wins[OF run] run present show ?thesis
    by (simp add: exampleOperation_def)
qed

text \<open>
  The claim as it is written fails where the last annotation present has an empty value:
  the header annotation is there, and the parameter stays in the query.
\<close>

theorem empty_header_annotation_does_not_win:
  "map (\<lambda>v. (ann (fd_Annotations v) ApiQuery, ann (fd_Annotations v) ApiHeader)) emptyHeaderFields
     = [([''q''], [[]])] \<and>
   exampleOperation ''GET'' emptyHeaderFields
     = Inr ((newGenerator, newDocument),
            parametersOperation [stringParameter ''q'' ''query'' False], ''/a'')"
  by code_simp

text \<open>
  Claim C4, as the code has it.  Every field whose path annotation carries a non-empty
  name contributes a parameter that is generated with required = true, whatever location
  it ends in; the parameter of a field without such a path annotation is generated with
  required = false.  The parameter override of the field, if any, is merged on top.
\<close>

theorem named_path_parameters_are_required:
  assumes "buildOperation X ast st methodName description operationID tagName path host
             inputDesc outputDesc = Inr (st', op, path')"
  shows "\<exists>cs. o_Parameters op = concat cs \<and>
           list_all2 (\<lambda>v c.
               (annotated v ApiPath \<noteq> None \<longrightarrow>
                  (\<exists>p. c = [mergeExtParameter X v p] \<and> p_Required p)) \<and>
               (annotated v ApiPath = None \<longrightarrow>
                  (\<forall>q \<in> set c. \<exists>p. q = mergeExtParameter X v p \<and> \<not> p_Required p)))
             (st_Fields inputDesc) cs"
proof -
  let ?Q = "(\<lambda>v c.
               (annotated v ApiPath \<noteq> None \<longrightarrow>
                  (\<exists>p. c = [mergeExtParameter X v p] \<and> p_Required p)) \<and>
               (annotated v ApiPath = None \<longrightarrow>
                  (\<forall>q \<in> set c. \<exists>p. q = mergeExtParameter X v p \<and> \<not> p_Required p)))"
  from buildOperation_contributions[OF assms] obtain cs where
    cs: "o_Parameters op = concat cs" "list_all2 (contribution X) (st_Fields inputDesc) cs"
    by blast
  have "list_all2 ?Q (st_Fields inputDesc) cs"
  proof (rule list_all2_mono[OF cs(2)])
    fix v c assume "contribution X v c"
    from contributionD[OF this] show "?Q v c"
    proof (elim disjE conjE exE)
      assume "presentLocations v = []" "c = []"
      with presentLocations_path[of v] show ?thesis
        by (cases "annotated v ApiPath") auto
    next
      fix sch
      let ?p = "\<lparr>p_Name = snd (last (presentLocations v)),
                   p_In = fst (last (presentLocations v)),
                   p_Description = filterCommentString X (fd_Comments v),
                   p_Required = (annotated v ApiPath \<noteq> None),
                   p_Schema = sch\<rparr>"
      assume c: "c = [mergeExtParameter X v ?p]"
      show ?thesis
      proof (intro conjI impI)
        assume "annotated v ApiPath \<noteq> None"
        with c have "c = [mergeExtParameter X v ?p] \<and> p_Required ?p" by simp
        then show "\<exists>p. c = [mergeExtParameter X v p] \<and> p_Required p" by blast
      next
        assume "annotated v ApiPath = None"
        then have "mergeExtParameter X v ?p = mergeExtParameter X v ?p \<and> \<not> p_Required ?p"
          by simp
        then have "\<exists>p. mergeExtParameter X v ?p = mergeExtParameter X v p \<and> \<not> p_Required p"
          by blast
        with c show "\<forall>q \<in> set c. \<exists>p. q = mergeExtParameter X v p \<and> \<not> p_Required p"
          by simp
      qed
    qed
  qed
  with cs(1) show ?thesis by blast
qed

text \<open>A path field and a query field: the first is required, the second is not.\<close>

theorem named_path_parameters_are_required_witness:
  "exampleOperation ''GET'' pathAndQueryFields
     = Inr ((newGenerator, newDocument),
            parametersOperation [stringParameter ''id'' ''path'' True,
                                 stringParameter ''q'' ''query'' False], ''/a'') \<and>
   map (\<lambda>v. annotated v ApiPath) pathAndQueryFields = [Some ''id'', None] \<and>
   (\<exists>cs. o_Parameters (parametersOperation [stringParameter ''id'' ''path'' True,
                                            stringParameter ''q'' ''query'' False]) = concat cs \<and>
      list_all2 (\<lambda>v c.
               (annotated v ApiPath \<noteq> None \<longrightarrow>
                  (\<exists>p. c = [mergeExtParameter plainExternals v p] \<and> p_Required p)) \<and>
               (annotated v ApiPath = None \<longrightarrow>
                  (\<forall>q \<in> set c. \<exists>p. q = mergeExtParameter plainExternals v p \<and> \<not> p_Required p)))
        (st_Fields (struct ''Req'' pathAndQueryFields)) cs)"
proof -
  have run: "buildOperation plainExternals (exampleAst pathAndQueryFields)
       (newGenerator, newDocument) ''GET'' [] ''S_M'' ''S'' ''/a'' []
       (struct ''Req'' pathAndQueryFields) emptyResponse
     = Inr ((newGenerator, newDocument),
            parametersOperation [stringParameter ''id'' ''path'' True,
                                 stringParameter ''q'' ''query'' False], ''/a'')"
    by code_simp
  have named: "map (\<lambda>v. annotated v ApiPath) pathAndQueryFields = [Some ''id'', None]"
    by code_simp
  from named_path_parameters_are_required[OF run] run named show ?thesis
    by (simp add: exampleOperation_def)
qed

text \<open>
  The claim as it is written fails where the path annotation has an empty value: the field
  is annotated as a path parameter and the operation has no parameter at all.
\<close>

theorem empty_path_annotation_gives_no_parameter:
  "map (\<lambda>v. ann (fd_Annotations v) ApiPath) emptyPathFields = [[[]]] \<and>
   exampleOperation ''GET'' emptyPathFields
     = Inr ((newGenerator, newDocument), parametersOperation [], ''/a'')"
  by code_simp

text \<open>
  Claim C10, as the code has it.  For every field whose path annotation carries a
  non-empty name and whose cookie or header annotation carries one too, the one generated
  parameter has the later location and its name (the header's if there is one, else the
  cookie's) and required = true.  The parameter override of the field, if any, is merged
  on top.
\<close>

theorem later_named_location_keeps_required:
  assumes "buildOperation X ast st methodName description operationID tagName path host
             inputDesc outputDesc = Inr (st', op, path')"
  shows "\<exists>cs. o_Parameters op = concat cs \<and>
           list_all2 (\<lambda>v c.
               annotated v ApiPath \<noteq> None \<and>
               (annotated v ApiCookie \<noteq> None \<or> annotated v ApiHeader \<noteq> None) \<longrightarrow>
                 (\<exists>p. c = [mergeExtParameter X v p] \<and> p_Required p \<and>
                      (p_In p, Some (p_Name p)) =
                        (if annotated v ApiHeader \<noteq> None then (''header'', annotated v ApiHeader)
                         else (''cookie'', annotated v ApiCookie))))
             (st_Fields inputDesc) cs"
proof -
  let ?Q = "(\<lambda>v c.
               annotated v ApiPath \<noteq> None \<and>
               (annotated v ApiCookie \<noteq> None \<or> annotated v ApiHeader \<noteq> None) \<longrightarrow>
                 (\<exists>p. c = [mergeExtParameter X v p] \<and> p_Required p \<and>
                      (p_In p, Some (p_Name p)) =
                        (if annotated v ApiHeader \<noteq> None then (''header'', annotated v ApiHeader)
                         else (''cookie'', annotated v ApiCookie))))"
  from buildOperation_contributions[OF assms] obtain cs where
    cs: "o_Parameters op = concat cs" "list_all2 (contribution X) (st_Fields inputDesc) cs"
    by blast
  have "list_all2 ?Q (st_Fields inputDesc) cs"
  proof (rule list_all2_mono[OF cs(2)])
    fix v c assume "contribution X v c"
    from contributionD[OF this] show "?Q v c"
    proof (elim disjE conjE exE)
      assume "presentLocations v = []" "c = []"
      with presentLocations_path[of v] show ?thesis by auto
    next
      fix sch
      let ?p = "\<lparr>p_Name = snd (last (presentLocations v)),
                   p_In = fst (last (presentLocations v)),
                   p_Description = filterCommentString X (fd_Comments v),
                   p_Required = (annotated v ApiPath \<noteq> None),
                   p_Schema = sch\<rparr>"
      assume c: "c = [mergeExtParameter X v ?p]"
      show ?thesis
      proof (intro impI, elim conjE)
        assume path: "annotated v ApiPath \<noteq> None"
          and later: "annotated v ApiCookie \<noteq> None \<or> annotated v ApiHeader \<noteq> None"
        have "(p_In ?p, Some (p_Name ?p)) =
                (if annotated v ApiHeader \<noteq> None then (''header'', annotated v ApiHeader)
                 else (''cookie'', annotated v ApiCookie))"
        proof (cases "annotated v ApiHeader")
          case (Some h)
          with presentLocations_last_header[OF Some] show ?thesis by simp
        next
          case None
          with later obtain k where k: "annotated v ApiCookie = Some k" by auto
          with presentLocations_last_cookie[OF None k] None show ?thesis by simp
        qed
        with c path have "c = [mergeExtParameter X v ?p] \<and> p_Required ?p \<and>
            (p_In ?p, Some (p_Name ?p)) =
                (if annotated v ApiHeader \<noteq> None then (''header'', annotated v ApiHeader)
                 else (''cookie'', annotated v ApiCookie))" by simp
        then show "\<exists>p. c = [mergeExtParameter X v p] \<and> p_Required p \<and>
                      (p_In p, Some (p_Name p)) =
                        (if annotated v ApiHeader \<noteq> None then (''header'', annotated v ApiHeader)
                         else (''cookie'', annotated v ApiCookie))" by blast
      qed
    qed
  qed
  with cs(1) show ?thesis by blast
qed

text \<open>A field with a path and a cookie annotation: one required parameter, in the cookie.\<close>

theorem later_named_location_keeps_required_witness:
  "exampleOperation ''GET'' pathAndCookieFields
     = Inr ((newGenerator, newDocument),
            parametersOperation [stringParameter ''c'' ''cookie'' True], ''/a'') \<and>
   map (\<lambda>v. (annotated v ApiPath, annotated v ApiCookie, annotated v ApiHeader))
       pathAndCookieFields = [(Some ''t'', Some ''c'', None)] \<and>
   (\<exists>cs. o_Parameters (parametersOperation [stringParameter ''c'' ''cookie'' True]) = concat cs \<and>
      list_all2 (\<lambda>v c.
               annotated v ApiPath \<noteq> None \<and>
               (annotated v ApiCookie \<noteq> None \<or> annotated v ApiHeader \<noteq> None) \<longrightarrow>
                 (\<exists>p. c = [mergeExtParameter plainExternals v p] \<and> p_Required p \<and>
                      (p_In p, Some (p_Name p)) =
                        (if annotated v ApiHeader \<noteq> None then (''header'', annotated v ApiHeader)
                         else (''cookie'', annotated v ApiCookie))))
        (st_Fields (struct ''Req'' pathAndCookieFields)) cs)"
proof -
  have run: "buildOperation plainExternals (exampleAst pathAndCookieFields)
       (newGenerator, newDocument) ''GET'' [] ''S_M'' ''S'' ''/a'' []
       (struct ''Req'' pathAndCookieFields) emptyResponse
     = Inr ((newGenerator, newDocument),
            parametersOperation [stringParameter ''c'' ''cookie'' True], ''/a'')"
    by code_simp
  have named: "map (\<lambda>v. (annotated v ApiPath, annotated v ApiCookie, annotated v ApiHeader))
       pathAndCookieFields = [(Some ''t'', Some ''c'', None)]"
    by code_simp
  from later_named_location_keeps_required[OF run] run named show ?thesis
    by (simp add: exampleOperation_def)
qed

text \<open>
  The claim as it is written fails where the path annotation has an empty value: the field
  carries a path and a header annotation, and its header parameter is not required.
\<close>

theorem empty_path_annotation_leaves_header_optional:
  "map (\<lambda>v. (ann (fd_Annotations v) ApiPath, ann (fd_Annotations v) ApiHeader))
       emptyPathAndHeaderFields = [([[]], [''h''])] \<and>
   exampleOperation ''GET'' emptyPathAndHeaderFields
     = Inr ((newGenerator, newDocument),
            parametersOperation [stringParameter ''h'' ''header'' False], ''/a'')"
  by code_simp


section \<open>The assembled document\<close>

text \<open>
  Claim C5.  In every document that BuildDocument returns, the tags, the paths and the
  component schemas are each sorted ascending by name, in the lexicographic order of their
  bytes.
\<close>

theorem returned_document_is_sorted_by_name:
  assumes "BuildDocument X iter fuel ast = Inr d"
  shows "sorted (map t_Name (d_Tags d)) \<and> sorted (map fst (d_Paths d)) \<and>
         sorted (map fst (d_Schemas d))"
proof -
  from assms obtain d0 where "d = sortDocument d0"
    by (auto simp: BuildDocument_def bind_error_def Let_def split: sum.splits prod.splits)
  then show ?thesis by (simp add: sortDocument_def)
qed

text \<open>The two services above: all three lists come out in the other order.\<close>

theorem returned_document_is_sorted_by_name_witness:
  "BuildDocument plainExternals tableOrder 2 sortingAst = Inr sortingDocument \<and>
   map t_Name (d_Tags sortingDocument) = [''Alpha'', ''Zeta''] \<and>
   map fst (d_Paths sortingDocument) = [''/a'', ''/b''] \<and>
   map fst (d_Schemas sortingDocument) = [''Item'', ''Resp''] \<and>
   sorted (map t_Name (d_Tags sortingDocument)) \<and> sorted (map fst (d_Paths sortingDocument)) \<and>
   sorted (map fst (d_Schemas sortingDocument))"
proof -
  have run: "BuildDocument plainExternals tableOrder 2 sortingAst = Inr sortingDocument"
    by code_simp
  have names: "map t_Name (d_Tags sortingDocument) = [''Alpha'', ''Zeta''] \<and>
   map fst (d_Paths sortingDocument) = [''/a'', ''/b''] \<and>
   map fst (d_Schemas sortingDocument) = [''Item'', ''Resp'']"
    by code_simp
  from returned_document_is_sorted_by_name[OF run] run names show ?thesis by blast
qed


section \<open>Steps that return\<close>





















section \<open>The any-verb\<close>




















section \<open>Servers\<close>

text \<open>When no schema is required the document does not depend on the fuel.\<close>

lemma requiredLoop_empty:
  "requiredSchemas g = [] \<Longrightarrow> requiredLoop X ast fuel rounds (g, d) = Inr (g, d)"
  by (cases rounds) simp_all

lemma BuildDocument_fuel:
  assumes "\<not> isl (BuildDocument X iter 0 ast)"
  shows "BuildDocument X iter fuel ast = BuildDocument X iter 0 ast"
proof (cases "addPathsToDocument X iter ast (Services ast)
         (newGenerator, case getDocumentOption ast of None \<Rightarrow> newDocument
                        | Some extDocument \<Rightarrow> MergeDocument X newDocument extDocument)")
  case (Inl e)
  then show ?thesis by (simp add: BuildDocument_def bind_error_def)
next
  case (Inr st)
  obtain g d where st: "st = (g, d)" by (cases st)
  from assms Inr st have "requiredSchemas g = []"
    by (auto simp: BuildDocument_def bind_error_def split: if_splits)
  with Inr st show ?thesis
    by (simp add: BuildDocument_def bind_error_def requiredLoop_empty)
qed

text \<open>
  Claim C7 has three operations on two paths that all declare one server URL end with that
  URL as the only server of the document and with no server left on any path or
  operation.  The pass over the paths (lines 108 to 152) looks at the operations under
  Get, Post, Put, Delete and Patch only, while addOperationToDocument also fills Options and
  Head: with GET and HEAD on one path and POST on the other, the document gets its one
  server and the paths lose theirs, but the HEAD operation keeps its own.
\<close>

theorem head_operation_keeps_its_server:
  "map_sum id
     (\<lambda>d. (map URL (d_Servers d),
           map (\<lambda>(name, item). (name, pi_Servers item, map_option o_Servers (pi_Get item),
                                  map_option o_Servers (pi_Post item),
                                  map_option o_Servers (pi_Head item))) (d_Paths d)))
     (BuildDocument plainExternals tableOrder fuel headServerAst)
   = Inr ([''http://example.com''],
          [(''/a'', [], Some [], None, Some [\<lparr>URL = ''http://example.com''\<rparr>]),
           (''/b'', [], None, Some [], None)])"
proof -
  have at0: "map_sum id
     (\<lambda>d. (map URL (d_Servers d),
           map (\<lambda>(name, item). (name, pi_Servers item, map_option o_Servers (pi_Get item),
                                  map_option o_Servers (pi_Post item),
                                  map_option o_Servers (pi_Head item))) (d_Paths d)))
     (BuildDocument plainExternals tableOrder 0 headServerAst)
   = Inr ([''http://example.com''],
          [(''/a'', [], Some [], None, Some [\<lparr>URL = ''http://example.com''\<rparr>]),
           (''/b'', [], None, Some [], None)])"
    by code_simp
  then have "\<not> isl (BuildDocument plainExternals tableOrder 0 headServerAst)"
    by (cases "BuildDocument plainExternals tableOrder 0 headServerAst") simp_all
  then have "BuildDocument plainExternals tableOrder fuel headServerAst
      = BuildDocument plainExternals tableOrder 0 headServerAst"
    by (rule BuildDocument_fuel)
  with at0 show ?thesis by simp
qed

text \<open>With PUT in the place of HEAD no server is left below the document.\<close>

lemma put_operation_gives_up_its_server:
  "map_sum id
     (\<lambda>d. (map URL (d_Servers d),
           map (\<lambda>(name, item). (name, pi_Servers item, map_option o_Servers (pi_Get item),
                                  map_option o_Servers (pi_Post item),
                                  map_option o_Servers (pi_Put item))) (d_Paths d)))
     (BuildDocument plainExternals tableOrder 0 putServerAst)
   = Inr ([''http://example.com''],
          [(''/a'', [], Some [], None, Some []), (''/b'', [], None, Some [], None)])"
  by code_simp

lemma collectServer_declares:
  assumes "declares u op" and "servers = [] \<or> servers = [u]" and "allServers = [] \<or> allServers = [u]"
  shows "collectServer op (servers, allServers) =
           (case op of None \<Rightarrow> (servers, allServers) | Some _ \<Rightarrow> ([u], [u]))"
  using assms
  by (auto simp: collectServer_def declares_def AppendUnique_def Contains_def split: option.splits)

lemma hoistServers_uniform:
  assumes "uniform u v" and "allServers = [] \<or> allServers = [u]"
  shows "hoistServers v allServers = ((cleared v)\<lparr>pi_Servers := [\<lparr>URL = u\<rparr>]\<rparr>, [u])"
proof -
  from assms(1) have d: "declares u (pi_Get v)" "declares u (pi_Post v)" "declares u (pi_Put v)"
    "declares u (pi_Delete v)" "declares u (pi_Patch v)"
    and some: "[pi_Get v, pi_Post v, pi_Put v, pi_Delete v, pi_Patch v] \<noteq> [None, None, None, None, None]"
    by (simp_all add: uniform_def)
  show ?thesis
    using d some assms(2)
    by (cases "pi_Get v"; cases "pi_Post v"; cases "pi_Put v"; cases "pi_Delete v"; cases "pi_Patch v")
       (auto simp: hoistServers_def collectServer_def declares_def AppendUnique_def Contains_def
          cleared_def)
qed

lemma hoistAll_uniform:
  assumes "\<forall>named \<in> set paths. uniform u (snd named)" and "allServers = [] \<or> allServers = [u]"
    and "paths \<noteq> []"
  shows "hoistAll paths allServers =
           (map (\<lambda>(name, v). (name, (cleared v)\<lparr>pi_Servers := [\<lparr>URL = u\<rparr>]\<rparr>)) paths, [u])"
  using assms
proof (induction paths arbitrary: allServers)
  case Nil
  then show ?case by simp
next
  case (Cons named paths)
  obtain name v where named: "named = (name, v)" by (cases named)
  from Cons.prems named have h: "hoistServers v allServers = ((cleared v)\<lparr>pi_Servers := [\<lparr>URL = u\<rparr>]\<rparr>, [u])"
    by (simp add: hoistServers_uniform)
  show ?case
  proof (cases paths)
    case Nil
    with h named show ?thesis by simp
  next
    case (Cons a as)
    with Cons.IH[of "[u]"] Cons.prems have "hoistAll paths [u] =
           (map (\<lambda>(name, v). (name, (cleared v)\<lparr>pi_Servers := [\<lparr>URL = u\<rparr>]\<rparr>)) paths, [u])"
      by simp
    with h named show ?thesis by simp
  qed
qed

text \<open>
  On the five verbs the pass does as much for every document: the document has the one
  server, and no path and none of these operations keeps one.
\<close>

lemma serversToDocument_uniform:
  assumes "\<forall>named \<in> set (d_Paths d). uniform u (snd named)" and "d_Paths d \<noteq> []"
  shows "d_Servers (serversToDocument d) = [\<lparr>URL = u\<rparr>] \<and>
         d_Paths (serversToDocument d)
           = map (\<lambda>(name, v). (name, (cleared v)\<lparr>pi_Servers := []\<rparr>)) (d_Paths d)"
proof -
  from hoistAll_uniform[OF assms(1) _ assms(2), of "[]"]
  have "hoistAll (d_Paths d) [] =
           (map (\<lambda>(name, v). (name, (cleared v)\<lparr>pi_Servers := [\<lparr>URL = u\<rparr>]\<rparr>)) (d_Paths d), [u])"
    by simp
  then show ?thesis
    by (auto simp: serversToDocument_def Let_def split: prod.splits)
qed

text \<open>
  Claim C6 has two runs on one input give the same document.  The verbs of a function are
  visited in the order of a \<^verbatim>\<open>range\<close> over a Go map (line 241), which differs from run to
  run; the paths are created in that order, and the servers of the document are collected
  path by path before the paths are sorted (lines 108 to 160) and are never sorted
  themselves.  Two orders of visit, each a rearrangement of the verbs, give two documents.
\<close>

theorem server_order_follows_verb_iteration:
  "mset (tableOrder rs) = mset rs \<and> mset (rev rs) = mset rs \<and>
   map_sum id (\<lambda>d. map URL (d_Servers d))
       (BuildDocument plainExternals tableOrder fuel serverOrderAst)
     = Inr [''http://one.example'', ''http://two.example''] \<and>
   map_sum id (\<lambda>d. map URL (d_Servers d))
       (BuildDocument plainExternals rev fuel serverOrderAst)
     = Inr [''http://two.example'', ''http://one.example''] \<and>
   BuildDocument plainExternals tableOrder fuel serverOrderAst
     \<noteq> BuildDocument plainExternals rev fuel serverOrderAst"
proof -
  have a0: "map_sum id (\<lambda>d. map URL (d_Servers d))
       (BuildDocument plainExternals tableOrder 0 serverOrderAst)
     = Inr [''http://one.example'', ''http://two.example'']"
    by code_simp
  have b0: "map_sum id (\<lambda>d. map URL (d_Servers d))
       (BuildDocument plainExternals rev 0 serverOrderAst)
     = Inr [''http://two.example'', ''http://one.example'']"
    by code_simp
  from a0 have "\<not> isl (BuildDocument plainExternals tableOrder 0 serverOrderAst)"
    by (cases "BuildDocument plainExternals tableOrder 0 serverOrderAst") simp_all
  then have a: "BuildDocument plainExternals tableOrder fuel serverOrderAst
      = BuildDocument plainExternals tableOrder 0 serverOrderAst"
    by (rule BuildDocument_fuel)
  from b0 have "\<not> isl (BuildDocument plainExternals rev 0 serverOrderAst)"
    by (cases "BuildDocument plainExternals rev 0 serverOrderAst") simp_all
  then have b: "BuildDocument plainExternals rev fuel serverOrderAst
      = BuildDocument plainExternals rev 0 serverOrderAst"
    by (rule BuildDocument_fuel)
  have "BuildDocument plainExternals tableOrder 0 serverOrderAst
     \<noteq> BuildDocument plainExternals rev 0 serverOrderAst"
  proof
    assume "BuildDocument plainExternals tableOrder 0 serverOrderAst
       = BuildDocument plainExternals rev 0 serverOrderAst"
    with a0 b0 show False by simp
  qed
  with a b a0 b0 show ?thesis by (simp add: tableOrder_def)
qed


section \<open>Struct references without a descriptor\<close>

text \<open>
  Where a schema is built from fields, a field whose struct has no descriptor is passed
  over: it adds no property and registers no name.
\<close>

lemma locationBlock_unresolved:
  assumes "annotated v key = Some ext"
    and "fd_Type v = StructRef n"
    and "GetStructDescriptor ast n = None"
    and "ann (fd_Annotations v) OpenapiProperty \<noteq> []"
  shows "locationBlock X ast v key loc req st = Inl NilPointerDereference"
  using assms
  by (cases st) (auto simp: locationBlock_def annotated_def Let_def split: list.splits if_splits)

lemma getSchemaByOption_field_unresolved:
  assumes "fd_Type v = StructRef n"
    and "GetStructDescriptor ast n = None"
  shows "\<exists>names'. getSchemaByOption_field X ast option allRequired v (g, props, names)
           = (g, props, names')"
  using assms
  by (auto simp: getSchemaByOption_field_def Let_def split: list.splits)

lemma addSchemasForStructsToDocument_field_unresolved:
  assumes "fd_Type v = StructRef n"
    and "GetStructDescriptor ast n = None"
  shows "addSchemasForStructsToDocument_field X ast v (g, props) = (g, props)"
  using assms
  by (simp add: addSchemasForStructsToDocument_field_def)

lemma unresolved_body_field_is_passed_over:
  "map_sum id
     (\<lambda>d. map (\<lambda>(name, item).
             (name, map_option (\<lambda>op. map_option rb_Content (o_RequestBody op)) (pi_Post item)))
           (d_Paths d))
     (BuildDocument plainExternals tableOrder 0 unresolvedBodyAst)
   = Inr [(''/a'', Some (Some [(''application/json'',
            IsSchema (Schema ''object'' [] [] [(''k'', typed ''string'' [])] [] None [] []))]))]"
  by code_simp

text \<open>
  Claim C8 has the failure stay local: the field is left out and a document is still
  returned.  The four location blocks of buildOperation do not test the field schema for
  \<^verbatim>\<open>nil\<close> as getSchemaByOption does (line 602): with an \<^verbatim>\<open>openapi.property\<close> annotation
  they read \<^verbatim>\<open>fieldSchema.Schema\<close> (lines 310, 325, 341, 356), and the generator panics.
\<close>

theorem unresolved_parameter_with_property_aborts:
  "BuildDocument plainExternals tableOrder fuel unresolvedAst = Inl NilPointerDereference"
proof -
  have a: "addPathsToDocument plainExternals tableOrder unresolvedAst (Services unresolvedAst)
             (newGenerator, newDocument) = Inl NilPointerDereference"
    by code_simp
  have b: "getDocumentOption unresolvedAst = None"
    by code_simp
  show ?thesis by (simp add: BuildDocument_def a b bind_error_def)
qed


section \<open>Schemas of required structs\<close>

lemma node_never_returns:
  "addSchemasForStructsToDocument X selfReferenceAst fuel (Some nodeStruct # rest) st = Inl OutOfFuel"
proof (induction fuel arbitrary: rest st)
  case 0
  show ?case by simp
next
  case (Suc fuel)
  have "nestedStructLikes selfReferenceAst nodeStruct = [Some nodeStruct]"
    by code_simp
  with Suc show ?case by (simp add: bind_error_def)
qed

lemma walk_never_returns:
  "addSchemasForStructsToDocument X selfReferenceAst fuel (map Some (GetStructLikes selfReferenceAst)) st
     = Inl OutOfFuel"
proof -
  have structs: "GetStructLikes selfReferenceAst = [nodeRequest, emptyResponse, nodeStruct]"
    by (simp add: selfReferenceAst_def GetStructLikes_def)
  have nested: "nestedStructLikes selfReferenceAst nodeRequest = [Some nodeStruct]"
    by code_simp
  show ?thesis
  proof (cases fuel)
    case 0
    then show ?thesis by (simp add: structs)
  next
    case (Suc n)
    then show ?thesis
      by (simp add: structs nested bind_error_def node_never_returns)
  qed
qed

lemma requiredLoop_never_returns:
  assumes "requiredSchemas g \<noteq> []"
  shows "requiredLoop X selfReferenceAst fuel rounds (g, d) = Inl OutOfFuel"
  using assms by (cases rounds) (simp_all add: walk_never_returns bind_error_def)

text \<open>
  Claim C1 has every struct that is reached from an operation appear exactly once among
  the component schemas, also when structs refer to themselves.  addSchemasForStructsToDocument
  calls itself on the structs named by the struct-typed fields of each struct before it
  tests whether the struct is required or already generated (lines 667 to 680): on a
  struct with a field of its own type the call never returns, so no document is built.
\<close>

theorem self_reference_never_returns:
  "BuildDocument plainExternals tableOrder fuel selfReferenceAst = Inl OutOfFuel"
proof -
  let ?r = "addPathsToDocument plainExternals tableOrder selfReferenceAst (Services selfReferenceAst)
             (newGenerator, newDocument)"
  have a: "\<not> isl ?r" by code_simp
  have b: "requiredSchemas (fst (projr ?r)) = [''Node'']" by code_simp
  have c: "getDocumentOption selfReferenceAst = None" by code_simp
  from a obtain g d where r: "?r = Inr (g, d)" by (cases ?r) auto
  with b have "requiredSchemas g \<noteq> []" by simp
  from requiredLoop_never_returns[OF this] r c show ?thesis
    by (simp add: BuildDocument_def bind_error_def)
qed

text \<open>
  The same for every input.  Take a set of structs each of which has a struct-typed field
  naming a struct of the set: a struct with a field of its own type, or a cycle of such
  references.  The walk of any list that holds one of them ends in an
  error whatever the fuel, which is to say that the generator does not return from it.
\<close>

lemma cyclic_walk:
  assumes cycle: "\<And>s. s \<in> C \<Longrightarrow> \<exists>s'. s' \<in> C \<and> Some s' \<in> set (nestedStructLikes ast s)"
    and member: "s \<in> C"
  shows "isl (addSchemasForStructsToDocument X ast fuel (pre @ Some s # rest) st)"
  using member
proof (induction fuel arbitrary: s pre rest st)
  case 0
  show ?case by (cases pre) simp_all
next
  case (Suc fuel)
  show ?case
  proof (induction pre arbitrary: st)
    case Nil
    from cycle[OF Suc.prems] obtain s' where s': "s' \<in> C" "Some s' \<in> set (nestedStructLikes ast s)"
      by blast
    then obtain pre' rest' where "nestedStructLikes ast s = pre' @ Some s' # rest'"
      by (auto simp: in_set_conv_decomp)
    with Suc.IH[OF s'(1), of pre' rest' st] show ?case
      by (auto simp: bind_error_def split: sum.splits)
  next
    case (Cons p pre)
    show ?case
    proof (cases p)
      case None
      then show ?thesis by simp
    next
      case (Some q)
      with Cons show ?thesis
        by (auto simp: bind_error_def split: sum.splits)
    qed
  qed
qed

lemma cyclic_requiredLoop:
  assumes cycle: "\<And>s. s \<in> C \<Longrightarrow> \<exists>s'. s' \<in> C \<and> Some s' \<in> set (nestedStructLikes ast s)"
    and member: "s \<in> C"
    and declared: "s \<in> set (GetStructLikes ast)"
    and needed: "requiredSchemas g \<noteq> []"
  shows "isl (requiredLoop X ast fuel rounds (g, d))"
proof -
  from declared obtain pre rest where "GetStructLikes ast = pre @ s # rest"
    by (auto simp: in_set_conv_decomp)
  then have "map Some (GetStructLikes ast) = map Some pre @ Some s # map Some rest" by simp
  with cyclic_walk[OF cycle member, of X fuel "map Some pre" "map Some rest" "(g, d)"]
  have "isl (addSchemasForStructsToDocument X ast fuel (map Some (GetStructLikes ast)) (g, d))"
    by simp
  with needed show ?thesis
    by (cases rounds) (auto simp: bind_error_def split: sum.splits)
qed

lemma map_filter_member:
  assumes "x \<in> set xs" and "h x = Some y"
  shows "y \<in> set (List.map_filter h xs)"
  using assms by (induction xs) (auto split: option.splits)

lemma nested_of_own_type:
  assumes "getStructLikeByName ast (st_Name s) = Some s"
    and "v \<in> set (st_Fields s)" and "fd_Type v = StructRef (st_Name s)"
  shows "Some s \<in> set (nestedStructLikes ast s)"
  unfolding nestedStructLikes_def
  by (rule map_filter_member[OF assms(2)]) (simp add: assms)

lemma self_reference_requiredLoop:
  assumes "getStructLikeByName ast (st_Name s) = Some s"
    and "v \<in> set (st_Fields s)" and "fd_Type v = StructRef (st_Name s)"
    and "s \<in> set (GetStructLikes ast)"
    and "requiredSchemas g \<noteq> []"
  shows "isl (requiredLoop X ast fuel rounds (g, d))"
proof (rule cyclic_requiredLoop[where C = "{s}" and s = s])
  fix s' assume "s' \<in> {s}"
  with nested_of_own_type[OF assms(1-3)]
  show "\<exists>s''. s'' \<in> {s} \<and> Some s'' \<in> set (nestedStructLikes ast s')" by simp
qed (use assms in simp_all)

text \<open>A struct that holds a list of its own type is emitted, once.\<close>

lemma list_reference_returns:
  "map_sum id (\<lambda>d. d_Schemas d) (BuildDocument plainExternals tableOrder 2 listReferenceAst)
     = Inr [(''Node'', IsSchema (Schema ''object'' [] []
               [(''children'', IsSchema (Schema ''array'' [] [] [] [] None
                   [Some (IsReference ''#/components/schemas/Node'')] []))] [] None [] []))]"
  by code_simp

end
